theory Spec2Isabelle
  imports Main "HOL-Library.Sublist"
begin

section \<open>JavaScript strings and values\<close>

text \<open>
  Names are modelled as ASCII strings: \<^verbatim>\<open>toLowerCase\<close> (and SQL's \<^verbatim>\<open>LOWER\<close>) maps the
  letters A to Z to a to z and leaves every other character as it is; \<^verbatim>\<open>trim\<close> removes
  the ASCII white space (tab, line feed, vertical tab, form feed, carriage return, space)
  at both ends.
\<close>

definition toLowerCase_char :: "char \<Rightarrow> char" where
  "toLowerCase_char c =
     (case map_of (zip ''ABCDEFGHIJKLMNOPQRSTUVWXYZ'' ''abcdefghijklmnopqrstuvwxyz'') c of
        Some l \<Rightarrow> l
      | None \<Rightarrow> c)"

definition toLowerCase :: "string \<Rightarrow> string" where
  "toLowerCase s = map toLowerCase_char s"

definition is_space :: "char \<Rightarrow> bool" where
  "is_space c = (c \<in> set [CHR 0x09, CHR 0x0A, CHR 0x0B, CHR 0x0C, CHR 0x0D, CHR '' ''])"

definition trim :: "string \<Rightarrow> string" where
  "trim s = rev (dropWhile is_space (rev (dropWhile is_space s)))"

text \<open>\<^verbatim>\<open>s.substring(0, n)\<close>.\<close>

definition substring0 :: "nat \<Rightarrow> string \<Rightarrow> string" where
  "substring0 n s = take n s"

text \<open>\<^verbatim>\<open>s.includes(kw)\<close>: \<open>kw\<close> occurs in \<open>s\<close> as a contiguous block.\<close>

definition js_includes :: "string \<Rightarrow> string \<Rightarrow> bool" where
  "js_includes s kw = sublist kw s"

text \<open>\<^verbatim>\<open>s.replace(/pat/g, '')\<close> for a literal pattern: every occurrence, left to right.\<close>

function remove_all :: "string \<Rightarrow> string \<Rightarrow> string" where
  "remove_all pat [] = []"
| "remove_all pat (c # cs) =
     (if pat \<noteq> [] \<and> prefix pat (c # cs)
      then remove_all pat (drop (length pat) (c # cs))
      else c # remove_all pat cs)"
  by pat_completeness auto
termination
  by (relation "measure (\<lambda>(pat, s). length s)") (auto simp: neq_Nil_conv)

text \<open>
  The decimal text of a number in a template string. The ids are taken to be integers
  of a size that JavaScript writes in full (below \<open>10\<^sup>2\<^sup>1\<close>).
\<close>

definition digit_char :: "nat \<Rightarrow> char" where
  "digit_char k = ''0123456789'' ! k"

fun decimal :: "nat \<Rightarrow> string" where
  "decimal n = (if n < 10 then [] else decimal (n div 10)) @ [digit_char (n mod 10)]"

definition number_text :: "int \<Rightarrow> string" where
  "number_text i = (if 0 \<le> i then decimal (nat i) else CHR ''-'' # decimal (nat (- i)))"

text \<open>
  The values a parsed JSON text or a response envelope can hold. Numbers are modelled as
  integers.
\<close>

datatype jsval =
    JUndefined
  | JNull
  | JBool bool
  | JNum int
  | JStr string
  | JArr "jsval list"
  | JObj "(string \<times> jsval) list"

datatype js_error =
    TypeError
  | SyntaxError
  | QueryError
  | NetworkError
  | HttpStatusError nat
  | Error string

fun truthy :: "jsval \<Rightarrow> bool" where
  "truthy JUndefined = False"
| "truthy JNull = False"
| "truthy (JBool b) = b"
| "truthy (JNum n) = (n \<noteq> 0)"
| "truthy (JStr s) = (s \<noteq> [])"
| "truthy (JArr xs) = True"
| "truthy (JObj kvs) = True"

text \<open>
  \<^verbatim>\<open>v.p\<close> for a property name that no built-in prototype defines (\<^verbatim>\<open>name\<close>,
  \<^verbatim>\<open>items\<close>, \<^verbatim>\<open>list\<close>, \<^verbatim>\<open>mcqs\<close>, \<^verbatim>\<open>questions\<close>, ...): a TypeError on \<^verbatim>\<open>null\<close> and
  \<^verbatim>\<open>undefined\<close>, the property of an object, \<^verbatim>\<open>undefined\<close> otherwise.
\<close>

fun get_prop :: "jsval \<Rightarrow> string \<Rightarrow> js_error + jsval" where
  "get_prop JUndefined p = Inl TypeError"
| "get_prop JNull p = Inl TypeError"
| "get_prop (JObj kvs) p = Inr (case map_of kvs p of Some x \<Rightarrow> x | None \<Rightarrow> JUndefined)"
| "get_prop v p = Inr JUndefined"

text \<open>\<^verbatim>\<open>v?.p\<close> and \<^verbatim>\<open>v?.[0]\<close>.\<close>

definition opt_prop :: "jsval \<Rightarrow> string \<Rightarrow> jsval" where
  "opt_prop v p = (case get_prop v p of Inl e \<Rightarrow> JUndefined | Inr x \<Rightarrow> x)"

fun opt_index0 :: "jsval \<Rightarrow> jsval" where
  "opt_index0 (JArr xs) = (case xs of [] \<Rightarrow> JUndefined | x # _ \<Rightarrow> x)"
| "opt_index0 (JStr s) = (case s of [] \<Rightarrow> JUndefined | c # _ \<Rightarrow> JStr [c])"
| "opt_index0 (JObj kvs) = (case map_of kvs ''0'' of Some x \<Rightarrow> x | None \<Rightarrow> JUndefined)"
| "opt_index0 v = JUndefined"

text \<open>\<^verbatim>\<open>xs.slice(0, count)\<close> on an array or a string.\<close>

definition slice0 :: "int \<Rightarrow> 'a list \<Rightarrow> 'a list" where
  "slice0 count xs =
     (if 0 \<le> count then take (nat count) xs else take (length xs - nat (- count)) xs)"

text \<open>A string of the request body or of a row in a template string.\<close>

definition template :: "string option \<Rightarrow> string" where
  "template s = (case s of None \<Rightarrow> ''null'' | Some t \<Rightarrow> t)"

definition truthy_str :: "string option \<Rightarrow> bool" where
  "truthy_str s = (s \<noteq> None \<and> s \<noteq> Some [])"

definition truthy_id :: "int option \<Rightarrow> bool" where
  "truthy_id i = (i \<noteq> None \<and> i \<noteq> Some 0)"

section \<open>The generation client (services/aiService)\<close>

text \<open>
  What the client sees of the outside: the rows of
  \<^verbatim>\<open>SELECT * FROM ai_providers WHERE is_active = TRUE LIMIT 1\<close> (or the error of that
  query), the outcome of \<^verbatim>\<open>axios.post(endpoint, body)\<close> for an endpoint and a prompt (the
  \<^verbatim>\<open>data\<close> of the response, or the error axios throws on a network failure or a
  status outside 2xx), and \<^verbatim>\<open>JSON.parse\<close> (\<open>None\<close>: it throws a SyntaxError).
\<close>

record ai_provider =
  api_key :: "string option"
  model_name :: "string option"
  base_url :: "string option"

record ai_env =
  provider_rows :: "js_error + ai_provider list"
  axios_post :: "string \<Rightarrow> string \<Rightarrow> js_error + jsval"
  JSON_parse :: "string \<Rightarrow> jsval option"

text \<open>\<^verbatim>\<open>`${base_url}/${model_name}:generateContent?key=${api_key}`\<close>\<close>

definition endpoint_of :: "ai_provider \<Rightarrow> string" where
  "endpoint_of p =
     template (base_url p) @ ''/'' @ template (model_name p) @ '':generateContent?key=''
       @ template (api_key p)"

text \<open>\<^verbatim>\<open>response.data?.candidates?.[0]?.content?.parts?.[0]?.text\<close>\<close>

definition response_text :: "jsval \<Rightarrow> jsval" where
  "response_text data =
     opt_prop (opt_index0 (opt_prop (opt_prop (opt_index0 (opt_prop data ''candidates''))
       ''content'') ''parts'')) ''text''"

text \<open>\<^verbatim>\<open>responseText.replace(/```json/g, '').replace(/```/g, '').trim()\<close>\<close>

definition cleanText :: "string \<Rightarrow> string" where
  "cleanText responseText = trim (remove_all ''```'' (remove_all ''```json'' responseText))"

definition fallbackMockStructure :: "string \<Rightarrow> string \<Rightarrow> jsval" where
  "fallbackMockStructure type context =
     JArr [JStr (''Sample '' @ type @ '' 1 ('' @ context @ '')''),
           JStr (''Sample '' @ type @ '' 2 ('' @ context @ '')''),
           JStr (''Sample '' @ type @ '' 3 ('' @ context @ '')''),
           JStr (''Sample '' @ type @ '' 4 ('' @ context @ '')''),
           JStr (''Sample '' @ type @ '' 5 ('' @ context @ '')'')]"

definition structure_prompt :: "string \<Rightarrow> string \<Rightarrow> string" where
  \<open>structure_prompt type context =
     ''Generate a list of exactly 10 ''
     @ type
     @ '' for the following context: "''
     @ context
     @ ''". ''
     @ [CHR 0x0A]
     @ ''        Return the result as a valid JSON array of strings. ''
     @ [CHR 0x0A]
     @ ''        Example: ["Item 1", "Item 2", ...]''
     @ [CHR 0x0A]
     @ ''        Return ONLY the JSON.''\<close>

text \<open>
  The \<^verbatim>\<open>try\<close> block of \<^verbatim>\<open>fetchAIStructure\<close>: the value it returns or the error it
  throws, and the outbound calls it made (endpoint and prompt of each \<^verbatim>\<open>axios.post\<close>).
\<close>

definition fetchAIStructure_try ::
    "ai_env \<Rightarrow> string \<Rightarrow> string \<Rightarrow> (js_error + jsval) \<times> (string \<times> string) list" where
  "fetchAIStructure_try env type context =
     (case provider_rows env of
        Inl e \<Rightarrow> (Inl e, [])
      | Inr [] \<Rightarrow> (Inl (Error ''AI Provider not configured''), [])
      | Inr (p # _) \<Rightarrow>
          if \<not> truthy_str (api_key p) then (Inl (Error ''AI Provider not configured''), [])
          else
            let prompt = structure_prompt type context;
                endpoint = endpoint_of p
            in (case axios_post env endpoint prompt of
                  Inl e \<Rightarrow> Inl e
                | Inr data \<Rightarrow>
                    let responseText = response_text data
                    in if \<not> truthy responseText then Inl (Error ''Empty AI response'')
                       else (case responseText of
                               JStr t \<Rightarrow>
                                 (case JSON_parse env (cleanText t) of
                                    None \<Rightarrow> Inl SyntaxError
                                  | Some parsedData \<Rightarrow>
                                      (case parsedData of
                                         JArr xs \<Rightarrow> Inr parsedData
                                       | _ \<Rightarrow>
                                           (case get_prop parsedData ''items'' of
                                              Inl e \<Rightarrow> Inl e
                                            | Inr items \<Rightarrow>
                                                if truthy items then Inr items
                                                else (case get_prop parsedData ''list'' of
                                                        Inl e \<Rightarrow> Inl e
                                                      | Inr list \<Rightarrow>
                                                          if truthy list then Inr list
                                                          else Inr (JArr [])))))
                             | _ \<Rightarrow> Inl TypeError),
                [(endpoint, prompt)]))"

definition fetchAIStructure :: "ai_env \<Rightarrow> string \<Rightarrow> string \<Rightarrow> jsval \<times> (string \<times> string) list" where
  "fetchAIStructure env type context =
     (case fetchAIStructure_try env type context of
        (Inl error, calls) \<Rightarrow> (fallbackMockStructure type context, calls)
      | (Inr v, calls) \<Rightarrow> (v, calls))"

text \<open>
  \<^verbatim>\<open>generateSchoolBoards\<close>, \<^verbatim>\<open>generateSchoolSubjects\<close> and
  \<^verbatim>\<open>generateSchoolChapters\<close>: the prompt is the context of the structure fetch, a bare
  string of the result is wrapped into \<^verbatim>\<open>{ name: b }\<close>, and a result that is not an
  array becomes the empty list.
\<close>

definition boards_prompt :: "string \<Rightarrow> string" where
  \<open>boards_prompt stateName =
     ''Return a list of REAL, officially recognized primary/secondary school education boards in the state of "''
     @ stateName
     @ ''", India. ''
     @ [CHR 0x0A]
     @ ''    Examples: WBCHSE, CBSE, WBBSE, ICSE, MSBSHSE, UPMSP.''
     @ [CHR 0x0A]
     @ ''    - DO NOT generate placeholders like "Board 1" or "Board A".''
     @ [CHR 0x0A]
     @ ''    - DO NOT use generic names.''
     @ [CHR 0x0A]
     @ ''    - Return exactly 10 boards if possible. ''
     @ [CHR 0x0A]
     @ ''    Return only a JSON array of objects with a "name" key.''
     @ [CHR 0x0A]
     @ ''    Example: [{"name": "CBSE"}, {"name": "WBBSE"}]''
     @ [CHR 0x0A]
     @ ''    Return ONLY JSON. STRICTLY NO MARKDOWN.''\<close>

definition subjects_prompt :: "string \<Rightarrow> string \<Rightarrow> string option \<Rightarrow> string" where
  \<open>subjects_prompt boardName className streamName =
     ''Return a list of STRICTLY syllabus-accurate subjects for ''
     @ className
     @ '' ''
     @ (if truthy_str streamName then ''('' @ template streamName @ '')'' else [])
     @ '' under the REAL "''
     @ boardName
     @ ''" education board in India.''
     @ [CHR 0x0A]
     @ ''    - DO NOT use placeholders like "Subject 1".''
     @ [CHR 0x0A]
     @ ''    - Use real academic subjects (e.g., Mathematics, Bengali, Physics, History).''
     @ [CHR 0x0A]
     @ ''    Return only a JSON array of objects with a "name" key.''
     @ [CHR 0x0A]
     @ ''    Example: [{"name": "Mathematics"}, {"name": "Physics"}]''
     @ [CHR 0x0A]
     @ ''    Return ONLY JSON. STRICTLY NO MARKDOWN.''\<close>

definition chapters_prompt :: "string \<Rightarrow> string \<Rightarrow> string \<Rightarrow> string" where
  \<open>chapters_prompt subjectName boardName className =
     ''Return a list of OFFICIALLY CORRECT chapters for the subject "''
     @ subjectName
     @ ''" in ''
     @ className
     @ '' of the ''
     @ boardName
     @ '' board in India.''
     @ [CHR 0x0A]
     @ ''    - DO NOT use placeholders like "Chapter 1".''
     @ [CHR 0x0A]
     @ ''    - Use real, specific chapter names from the authorized textbook syllabus.''
     @ [CHR 0x0A]
     @ ''    Return only a JSON array of objects with a "name" key.''
     @ [CHR 0x0A]
     @ ''    Example: [{"name": "Trigonometry"}, {"name": "Calculus"}]''
     @ [CHR 0x0A]
     @ ''    Return ONLY JSON. STRICTLY NO MARKDOWN.''\<close>

definition wrap_name :: "jsval \<Rightarrow> jsval" where
  "wrap_name b = (case b of JStr s \<Rightarrow> JObj [(''name'', b)] | _ \<Rightarrow> b)"

definition wrap_names :: "jsval \<Rightarrow> jsval list" where
  "wrap_names v = (case v of JArr bs \<Rightarrow> map wrap_name bs | _ \<Rightarrow> [])"

definition generateSchoolBoards :: "ai_env \<Rightarrow> string \<Rightarrow> jsval list \<times> (string \<times> string) list" where
  "generateSchoolBoards env stateName =
     (let (boards, calls) = fetchAIStructure env ''boards'' (boards_prompt stateName)
      in (wrap_names boards, calls))"

definition generateSchoolSubjects ::
    "ai_env \<Rightarrow> string \<Rightarrow> string \<Rightarrow> string option \<Rightarrow> jsval list \<times> (string \<times> string) list" where
  "generateSchoolSubjects env boardName className streamName =
     (let (subjects, calls) =
            fetchAIStructure env ''subjects'' (subjects_prompt boardName className streamName)
      in (wrap_names subjects, calls))"

definition generateSchoolChapters ::
    "ai_env \<Rightarrow> string \<Rightarrow> string \<Rightarrow> string \<Rightarrow> jsval list \<times> (string \<times> string) list" where
  "generateSchoolChapters env subjectName boardName className =
     (let (chapters, calls) =
            fetchAIStructure env ''chapters'' (chapters_prompt subjectName boardName className)
      in (wrap_names chapters, calls))"

subsection \<open>Question generation\<close>

definition mcq_prompt :: "string \<Rightarrow> int \<Rightarrow> string" where
  \<open>mcq_prompt topic count =
     ''Generate exactly ''
     @ number_text count
     @ '' multiple-choice questions (MCQs) about the topic: "''
     @ topic
     @ ''". ''
     @ [CHR 0x0A]
     @ ''        The output must be a valid JSON array of objects. Each object must have:''
     @ [CHR 0x0A]
     @ ''        - "question": (string) The MCQ question.''
     @ [CHR 0x0A]
     @ ''        - "options": (array of 4 strings) Four distinct options.''
     @ [CHR 0x0A]
     @ ''        - "correct_option": (integer, 0-3) The index of the correct option.''
     @ [CHR 0x0A]
     @ ''        - "explanation": (string) A detailed explanation of why the answer is correct.''
     @ [CHR 0x0A]
     @ ''        - "subject": (string) Set as "''
     @ topic
     @ ''".''
     @ [CHR 0x0A]
     @ ''        - "chapter": (string) A logical chapter name related to the topic.''
     @ [CHR 0x0A]
     @ ''        ''
     @ [CHR 0x0A]
     @ ''        Return ONLY the JSON array. Do not include markdown formatting like ```json.''\<close>

text \<open>The element of index \<open>i\<close> of \<^verbatim>\<open>fallbackMock(topic, count)\<close>.\<close>

definition mock_mcq :: "string \<Rightarrow> nat \<Rightarrow> jsval" where
  "mock_mcq topic i =
     JObj [(''question'',
              JStr (''[MOCK] '' @ topic @ '' practice question '' @ decimal (i + 1) @ ''?'')),
           (''options'',
              JArr [JStr ''Option 1'', JStr ''Option 2'', JStr ''Option 3'', JStr ''Option 4'']),
           (''correct_option'', JNum 0),
           (''explanation'',
              JStr (''This is a fallback mock explanation for '' @ topic
                    @ ''. Please check AI API configuration.'')),
           (''subject'', JStr topic),
           (''chapter'', JStr ''General'')]"

definition fallbackMock :: "string \<Rightarrow> int \<Rightarrow> jsval" where
  "fallbackMock topic count = JArr (map (mock_mcq topic) [0..<nat count])"

text \<open>
  \<^verbatim>\<open>Array.isArray(parsedData) ? parsedData : (parsedData.mcqs || parsedData.questions || [])\<close>
\<close>

definition mcqs_of :: "jsval \<Rightarrow> js_error + jsval" where
  "mcqs_of parsedData =
     (case parsedData of
        JArr xs \<Rightarrow> Inr parsedData
      | _ \<Rightarrow>
          (case get_prop parsedData ''mcqs'' of
             Inl e \<Rightarrow> Inl e
           | Inr mcqs \<Rightarrow>
               if truthy mcqs then Inr mcqs
               else (case get_prop parsedData ''questions'' of
                       Inl e \<Rightarrow> Inl e
                     | Inr questions \<Rightarrow>
                         if truthy questions then Inr questions else Inr (JArr []))))"

text \<open>
  The inner \<^verbatim>\<open>try\<close> block of \<^verbatim>\<open>generateMCQInitial\<close>; its \<^verbatim>\<open>catch\<close> throws a new
  error for whatever was thrown.
\<close>

definition parse_mcqs :: "ai_env \<Rightarrow> jsval \<Rightarrow> int \<Rightarrow> js_error + jsval" where
  "parse_mcqs env responseText count =
     (case responseText of
        JStr t \<Rightarrow>
          (case JSON_parse env (cleanText t) of
             None \<Rightarrow> Inl SyntaxError
           | Some parsedData \<Rightarrow>
               (case mcqs_of parsedData of
                  Inl e \<Rightarrow> Inl e
                | Inr (JArr xs) \<Rightarrow> Inr (JArr (slice0 count xs))
                | Inr (JStr s) \<Rightarrow> Inr (JStr (slice0 count s))
                | Inr _ \<Rightarrow> Inl TypeError))
      | _ \<Rightarrow> Inl TypeError)"

definition generateMCQInitial_try ::
    "ai_env \<Rightarrow> string \<Rightarrow> int \<Rightarrow> (js_error + jsval) \<times> (string \<times> string) list" where
  "generateMCQInitial_try env topic count =
     (case provider_rows env of
        Inl e \<Rightarrow> (Inl e, [])
      | Inr [] \<Rightarrow> (Inr (fallbackMock topic count), [])
      | Inr (provider # _) \<Rightarrow>
          if \<not> truthy_str (api_key provider) then (Inr (fallbackMock topic count), [])
          else
            let prompt = mcq_prompt topic count;
                endpoint = endpoint_of provider
            in (case axios_post env endpoint prompt of
                  Inl e \<Rightarrow> Inl e
                | Inr data \<Rightarrow>
                    let responseText = response_text data
                    in if \<not> truthy responseText
                       then Inl (Error ''AI Provider returned an empty response'')
                       else (case parse_mcqs env responseText count of
                               Inl parseError \<Rightarrow> Inl (Error ''AI output was not valid JSON'')
                             | Inr mcqs \<Rightarrow> Inr mcqs),
                [(endpoint, prompt)]))"

definition generateMCQInitial :: "ai_env \<Rightarrow> string \<Rightarrow> int \<Rightarrow> jsval \<times> (string \<times> string) list" where
  "generateMCQInitial env topic count =
     (case generateMCQInitial_try env topic count of
        (Inl error, calls) \<Rightarrow> (fallbackMock topic count, calls)
      | (Inr v, calls) \<Rightarrow> (v, calls))"

section \<open>The relational store\<close>

text \<open>
  SQL's three-valued logic: a nullable value is an \<open>option\<close> (\<open>None\<close> is NULL), a
  condition is a \<open>bool option\<close> (\<open>None\<close> is unknown), and a \<^verbatim>\<open>WHERE\<close> clause keeps the
  rows on which the condition is true.
\<close>

definition sql_eq :: "'a option \<Rightarrow> 'a option \<Rightarrow> bool option" where
  "sql_eq a b = (case (a, b) of (Some x, Some y) \<Rightarrow> Some (x = y) | _ \<Rightarrow> None)"

definition sql_and :: "bool option \<Rightarrow> bool option \<Rightarrow> bool option" where
  "sql_and p q =
     (if p = Some False \<or> q = Some False then Some False
      else if p = Some True \<and> q = Some True then Some True
      else None)"

definition sql_or :: "bool option \<Rightarrow> bool option \<Rightarrow> bool option" where
  "sql_or p q =
     (if p = Some True \<or> q = Some True then Some True
      else if p = Some False \<and> q = Some False then Some False
      else None)"

definition sql_is_null :: "'a option \<Rightarrow> bool option" where
  "sql_is_null a = Some (a = None)"

definition sql_holds :: "bool option \<Rightarrow> bool" where
  "sql_holds p = (p = Some True)"

text \<open>
  The rows, with the columns that the statements of the routes name. \<open>node_row\<close> is a row
  of \<^verbatim>\<open>boards\<close> (its parent key is \<^verbatim>\<open>state_id\<close>) or of \<^verbatim>\<open>chapters\<close> (parent key
  \<^verbatim>\<open>subject_id\<close>); \<open>pending_row\<close> is a row of \<^verbatim>\<open>universities\<close> (parent key
  \<^verbatim>\<open>state_id\<close>) or of \<^verbatim>\<open>papers_stages\<close> (parent key \<^verbatim>\<open>category_id\<close>). A column that
  an \<^verbatim>\<open>INSERT\<close> does not name is NULL, and \<^verbatim>\<open>is_approved\<close> of a subject is \<open>None\<close>
  when the statement leaves it to the column's default.
\<close>

record node_row =
  n_id :: nat
  n_name :: string
  n_parent_id :: "int option"
  n_is_active :: bool

record pending_row =
  p_id :: nat
  p_name :: "string option"
  p_parent_id :: "int option"
  p_is_approved :: bool

record subject_row =
  s_id :: nat
  s_name :: string
  s_category_id :: "int option"
  s_board_id :: "int option"
  s_university_id :: "int option"
  s_class_id :: "int option"
  s_stream_id :: "int option"
  s_semester_id :: "int option"
  s_degree_type_id :: "int option"
  s_paper_stage_id :: "int option"
  s_is_active :: bool
  s_is_approved :: "bool option"

record store =
  boards :: "node_row list"
  chapters :: "node_row list"
  subjects :: "subject_row list"
  universities :: "pending_row list"
  papers_stages :: "pending_row list"

text \<open>
  A data statement with its parameters bound: from the next value of the id sequence and
  the store to the rows it returns, the sequence and the store after it.
\<close>

type_synonym 'r dml = "nat \<Rightarrow> store \<Rightarrow> 'r list \<times> nat \<times> store"

subsection \<open>Boards and chapters\<close>

text \<open>
  Modelled from the spec: the uniqueness constraint on (scope key, name) that
  \<^verbatim>\<open>ON CONFLICT (state_id, name)\<close> and \<^verbatim>\<open>ON CONFLICT (subject_id, name)\<close> name (the schema
  is not part of the sources). A row conflicts with the proposed one when both keys are
  equal; as in SQL, a NULL key is equal to nothing.
\<close>

definition node_conflict :: "string \<Rightarrow> int option \<Rightarrow> node_row \<Rightarrow> bool" where
  "node_conflict name parent r =
     sql_holds (sql_and (sql_eq (n_parent_id r) parent) (sql_eq (Some (n_name r)) (Some name)))"

text \<open>
  \<^verbatim>\<open>INSERT ... VALUES ($1, $2, TRUE) ON CONFLICT (...) DO UPDATE SET is_active = TRUE
  RETURNING id, name\<close>. The id is drawn from the sequence before the conflict is looked for.
\<close>

definition insert_node_do_update ::
    "string \<Rightarrow> int option \<Rightarrow> nat \<Rightarrow> node_row list \<Rightarrow> (nat \<times> string) list \<times> nat \<times> node_row list" where
  "insert_node_do_update name parent seq rows =
     (if list_ex (node_conflict name parent) rows
      then
        let rows' = map (\<lambda>r. if node_conflict name parent r then r\<lparr>n_is_active := True\<rparr> else r) rows
        in (map (\<lambda>r. (n_id r, n_name r)) (filter (node_conflict name parent) rows'), Suc seq, rows')
      else
        let r = \<lparr>n_id = seq, n_name = name, n_parent_id = parent, n_is_active = True\<rparr>
        in ([(n_id r, n_name r)], Suc seq, rows @ [r]))"

text \<open>\<^verbatim>\<open>INSERT ... VALUES ($1, $2, $3) ON CONFLICT (...) DO NOTHING RETURNING *\<close>\<close>

definition insert_node_do_nothing ::
    "string \<Rightarrow> int option \<Rightarrow> bool \<Rightarrow> nat \<Rightarrow> node_row list \<Rightarrow> node_row list \<times> nat \<times> node_row list" where
  "insert_node_do_nothing name parent active seq rows =
     (if list_ex (node_conflict name parent) rows then ([], Suc seq, rows)
      else
        let r = \<lparr>n_id = seq, n_name = name, n_parent_id = parent, n_is_active = active\<rparr>
        in ([r], Suc seq, rows @ [r]))"

definition sql_insert_boards_do_update :: "string \<Rightarrow> int option \<Rightarrow> (nat \<times> string) dml" where
  "sql_insert_boards_do_update name state_id seq st =
     (let (out, seq', rows') = insert_node_do_update name state_id seq (boards st)
      in (out, seq', st\<lparr>boards := rows'\<rparr>))"

definition sql_insert_boards_do_nothing :: "string \<Rightarrow> int option \<Rightarrow> bool \<Rightarrow> node_row dml" where
  "sql_insert_boards_do_nothing name state_id active seq st =
     (let (out, seq', rows') = insert_node_do_nothing name state_id active seq (boards st)
      in (out, seq', st\<lparr>boards := rows'\<rparr>))"

definition sql_insert_chapters_do_update :: "string \<Rightarrow> int option \<Rightarrow> (nat \<times> string) dml" where
  "sql_insert_chapters_do_update name subject_id seq st =
     (let (out, seq', rows') = insert_node_do_update name subject_id seq (chapters st)
      in (out, seq', st\<lparr>chapters := rows'\<rparr>))"

definition sql_insert_chapters_do_nothing :: "string \<Rightarrow> int option \<Rightarrow> bool \<Rightarrow> node_row dml" where
  "sql_insert_chapters_do_nothing name subject_id active seq st =
     (let (out, seq', rows') = insert_node_do_nothing name subject_id active seq (chapters st)
      in (out, seq', st\<lparr>chapters := rows'\<rparr>))"

text \<open>\<^verbatim>\<open>SELECT id FROM chapters WHERE subject_id = $1 AND LOWER(name) = LOWER($2)\<close>\<close>

definition chapter_where :: "int option \<Rightarrow> string \<Rightarrow> node_row \<Rightarrow> bool" where
  "chapter_where p1 p2 r =
     sql_holds (sql_and (sql_eq (n_parent_id r) p1)
                        (sql_eq (Some (toLowerCase (n_name r))) (Some (toLowerCase p2))))"

definition sql_select_chapters :: "int option \<Rightarrow> string \<Rightarrow> nat dml" where
  "sql_select_chapters p1 p2 seq st = (map n_id (filter (chapter_where p1 p2) (chapters st)), seq, st)"

text \<open>\<^verbatim>\<open>UPDATE chapters SET is_active = TRUE WHERE id = $1\<close>\<close>

definition sql_update_chapters_active :: "nat \<Rightarrow> nat dml" where
  "sql_update_chapters_active p1 seq st =
     ([], seq,
      st\<lparr>chapters := map (\<lambda>r. if n_id r = p1 then r\<lparr>n_is_active := True\<rparr> else r) (chapters st)\<rparr>)"

subsection \<open>Subjects\<close>

text \<open>
  The condition of the public route:
  \<^verbatim>\<open>board_id = $1 AND class_id = $2 AND (stream_id = $3 OR (stream_id IS NULL AND $3 IS NULL))
  AND LOWER(name) = LOWER($4)\<close>
\<close>

definition fetch_out_subject_where ::
    "int option \<Rightarrow> int option \<Rightarrow> int option \<Rightarrow> string \<Rightarrow> subject_row \<Rightarrow> bool" where
  "fetch_out_subject_where p1 p2 p3 p4 r =
     sql_holds
       (sql_and
          (sql_and
             (sql_and (sql_eq (s_board_id r) p1) (sql_eq (s_class_id r) p2))
             (sql_or (sql_eq (s_stream_id r) p3)
                     (sql_and (sql_is_null (s_stream_id r)) (sql_is_null p3))))
          (sql_eq (Some (toLowerCase (s_name r))) (Some (toLowerCase p4))))"

definition sql_select_subjects :: "int option \<Rightarrow> int option \<Rightarrow> int option \<Rightarrow> string \<Rightarrow> nat dml" where
  "sql_select_subjects p1 p2 p3 p4 seq st =
     (map s_id (filter (fetch_out_subject_where p1 p2 p3 p4) (subjects st)), seq, st)"

text \<open>\<^verbatim>\<open>UPDATE subjects SET is_active = TRUE WHERE id = $1\<close>\<close>

definition sql_update_subjects_active :: "nat \<Rightarrow> (nat \<times> string) dml" where
  "sql_update_subjects_active p1 seq st =
     ([], seq,
      st\<lparr>subjects := map (\<lambda>r. if s_id r = p1 then r\<lparr>s_is_active := True\<rparr> else r) (subjects st)\<rparr>)"

text \<open>
  \<^verbatim>\<open>INSERT INTO subjects (name, category_id, board_id, class_id, stream_id, is_active,
  is_approved) VALUES ($1, 1, $2, $3, $4, TRUE, TRUE) RETURNING id, name\<close>
\<close>

definition sql_insert_subjects_fetch_out ::
    "string \<Rightarrow> int option \<Rightarrow> int option \<Rightarrow> int option \<Rightarrow> (nat \<times> string) dml" where
  "sql_insert_subjects_fetch_out p1 p2 p3 p4 seq st =
     (let r = \<lparr>s_id = seq, s_name = p1, s_category_id = Some 1, s_board_id = p2,
               s_university_id = None, s_class_id = p3, s_stream_id = p4, s_semester_id = None,
               s_degree_type_id = None, s_paper_stage_id = None, s_is_active = True,
               s_is_approved = Some True\<rparr>
      in ([(s_id r, s_name r)], Suc seq, st\<lparr>subjects := subjects st @ [r]\<rparr>))"

text \<open>
  The condition of the admin route's \<^verbatim>\<open>WHERE NOT EXISTS\<close>:
  \<^verbatim>\<open>board_id = $3 AND class_id = $5 AND (stream_id = $6 OR (stream_id IS NULL AND $6 IS NULL))
  AND name = $1\<close>
\<close>

definition admin_subject_where ::
    "string \<Rightarrow> int option \<Rightarrow> int option \<Rightarrow> int option \<Rightarrow> subject_row \<Rightarrow> bool" where
  "admin_subject_where p1 p3 p5 p6 r =
     sql_holds
       (sql_and
          (sql_and
             (sql_and (sql_eq (s_board_id r) p3) (sql_eq (s_class_id r) p5))
             (sql_or (sql_eq (s_stream_id r) p6)
                     (sql_and (sql_is_null (s_stream_id r)) (sql_is_null p6))))
          (sql_eq (Some (s_name r)) (Some p1)))"

text \<open>
  \<^verbatim>\<open>INSERT INTO subjects (name, category_id, board_id, university_id, class_id, stream_id,
  semester_id, degree_type_id, paper_stage_id, is_active)
  SELECT $1, $2, $3, $4, $5, $6, $7, $8, $9, TRUE WHERE NOT EXISTS (...) RETURNING *\<close>
\<close>

definition sql_insert_subjects_admin ::
    "string \<Rightarrow> int option \<Rightarrow> int option \<Rightarrow> int option \<Rightarrow> int option \<Rightarrow> int option \<Rightarrow> int option
      \<Rightarrow> int option \<Rightarrow> int option \<Rightarrow> subject_row dml" where
  "sql_insert_subjects_admin p1 p2 p3 p4 p5 p6 p7 p8 p9 seq st =
     (if list_ex (admin_subject_where p1 p3 p5 p6) (subjects st) then ([], seq, st)
      else
        let r = \<lparr>s_id = seq, s_name = p1, s_category_id = p2, s_board_id = p3,
                 s_university_id = p4, s_class_id = p5, s_stream_id = p6, s_semester_id = p7,
                 s_degree_type_id = p8, s_paper_stage_id = p9, s_is_active = True,
                 s_is_approved = None\<rparr>
        in ([r], Suc seq, st\<lparr>subjects := subjects st @ [r]\<rparr>))"

subsection \<open>Universities and papers\<close>

text \<open>
  \<^verbatim>\<open>INSERT ... VALUES ($1, $2, $3) ON CONFLICT DO NOTHING RETURNING *\<close> names no
  constraint: which rows conflict is decided by the schema, which is not part of the
  sources, so the conflict relation is a parameter.
\<close>

definition insert_pending_do_nothing ::
    "(pending_row \<Rightarrow> pending_row \<Rightarrow> bool) \<Rightarrow> string option \<Rightarrow> int option \<Rightarrow> bool \<Rightarrow> nat
      \<Rightarrow> pending_row list \<Rightarrow> pending_row list \<times> nat \<times> pending_row list" where
  "insert_pending_do_nothing conflict name parent approved seq rows =
     (let r = \<lparr>p_id = seq, p_name = name, p_parent_id = parent, p_is_approved = approved\<rparr>
      in if list_ex (conflict r) rows then ([], Suc seq, rows)
         else ([r], Suc seq, rows @ [r]))"

definition sql_insert_universities ::
    "(pending_row \<Rightarrow> pending_row \<Rightarrow> bool) \<Rightarrow> string option \<Rightarrow> int option \<Rightarrow> bool \<Rightarrow> pending_row dml" where
  "sql_insert_universities conflict name state_id approved seq st =
     (let (out, seq', rows') =
            insert_pending_do_nothing conflict name state_id approved seq (universities st)
      in (out, seq', st\<lparr>universities := rows'\<rparr>))"

definition sql_insert_papers_stages ::
    "(pending_row \<Rightarrow> pending_row \<Rightarrow> bool) \<Rightarrow> string option \<Rightarrow> int option \<Rightarrow> bool \<Rightarrow> pending_row dml" where
  "sql_insert_papers_stages conflict name category_id approved seq st =
     (let (out, seq', rows') =
            insert_pending_do_nothing conflict name category_id approved seq (papers_stages st)
      in (out, seq', st\<lparr>papers_stages := rows'\<rparr>))"

text \<open>
  Modelled from the spec: "a uniqueness constraint on (scope key, name) for certain
  taxonomy tables", for a schema that holds one on \<^verbatim>\<open>universities\<close> and on
  \<^verbatim>\<open>papers_stages\<close> (the schema is not part of the sources). An existing row conflicts
  with the proposed one when both keys are equal; as in SQL, NULL is equal to nothing.
\<close>

definition pending_conflict :: "pending_row \<Rightarrow> pending_row \<Rightarrow> bool" where
  "pending_conflict new r =
     sql_holds (sql_and (sql_eq (p_parent_id r) (p_parent_id new)) (sql_eq (p_name r) (p_name new)))"

subsection \<open>The query primitive\<close>

text \<open>
  Modelled from the spec: \<^verbatim>\<open>query\<close> of \<^verbatim>\<open>db.js\<close>, which is not part of the sources
  ("a query execution primitive accepting a statement and positional parameters and
  returning rows; transactional BEGIN/COMMIT/ROLLBACK primitives"). The database holds
  the committed store, the working copy of an open transaction, the id sequence (which a
  rollback does not restore) and the number of statements issued so far. A statement
  outside a transaction is committed at once. Statement number \<open>k\<close> fails, without any
  effect, when \<open>faults k\<close> holds: \<open>faults\<close> stands for every reason a statement can fail
  for (a violated constraint, a lost connection).
\<close>

record db =
  committed :: store
  working :: "store option"
  seq :: nat
  calls :: nat

datatype 'r statement = BEGIN | COMMIT | ROLLBACK | DML "'r dml"

definition current :: "db \<Rightarrow> store" where
  "current d = (case working d of Some w \<Rightarrow> w | None \<Rightarrow> committed d)"

definition set_current :: "store \<Rightarrow> db \<Rightarrow> db" where
  "set_current st d =
     (case working d of Some w \<Rightarrow> d\<lparr>working := Some st\<rparr> | None \<Rightarrow> d\<lparr>committed := st\<rparr>)"

definition query :: "(nat \<Rightarrow> bool) \<Rightarrow> 'r statement \<Rightarrow> db \<Rightarrow> (js_error + 'r list) \<times> db" where
  "query faults stmt d =
     (let d1 = d\<lparr>calls := calls d + 1\<rparr>
      in if faults (calls d) then (Inl QueryError, d1)
         else (case stmt of
                 BEGIN \<Rightarrow>
                   (Inr [], case working d of None \<Rightarrow> d1\<lparr>working := Some (committed d)\<rparr>
                                           | Some w \<Rightarrow> d1)
               | COMMIT \<Rightarrow>
                   (Inr [], case working d of None \<Rightarrow> d1
                                           | Some w \<Rightarrow> d1\<lparr>committed := w, working := None\<rparr>)
               | ROLLBACK \<Rightarrow> (Inr [], d1\<lparr>working := None\<rparr>)
               | DML f \<Rightarrow>
                   (let (rows, seq', st') = f (seq d) (current d)
                    in (Inr rows, set_current st' (d1\<lparr>seq := seq'\<rparr>)))))"

section \<open>Requests, responses and loops\<close>

text \<open>
  The fields of \<^verbatim>\<open>req.body\<close> that the routes read; a field the body does not hold is
  \<open>None\<close>. Ids are integers and names are strings.
\<close>

record body =
  state_id :: "int option"
  state_name :: "string option"
  board_id :: "int option"
  board_name :: "string option"
  class_id :: "int option"
  class_name :: "string option"
  stream_id :: "int option"
  stream_name :: "string option"
  subject_id :: "int option"
  subject_name :: "string option"
  category_id :: "int option"
  category_name :: "string option"
  university_id :: "int option"
  semester_id :: "int option"
  degree_type_id :: "int option"
  paper_stage_id :: "int option"
  context_name :: "string option"

text \<open>A field of the body in a template string.\<close>

definition body_text :: "string option \<Rightarrow> string" where
  "body_text s = (case s of None \<Rightarrow> ''undefined'' | Some t \<Rightarrow> t)"

text \<open>
  A response: \<^verbatim>\<open>res.json\<close> with the saved rows (the count and the message of the
  payload are functions of them), or a status with its message.
\<close>

datatype 'r response =
    Json200 "'r list"
  | Status400 string
  | Status429 string
  | Status500 string


text \<open>
  \<^verbatim>\<open>for (const x of xs) { ... }\<close>: the body runs on each element in order, from the state
  the previous one left; the first error ends the loop, with the state reached.
\<close>

fun for_of :: "('a \<Rightarrow> 's \<Rightarrow> js_error option \<times> 's) \<Rightarrow> 'a list \<Rightarrow> 's \<Rightarrow> js_error option \<times> 's" where
  "for_of step [] s = (None, s)"
| "for_of step (x # xs) s =
     (case step x s of
        (Some e, s') \<Rightarrow> (Some e, s')
      | (None, s') \<Rightarrow> for_of step xs s')"


text \<open>\<^verbatim>\<open>if (result.rows[0]) saved.push(result.rows[0])\<close>\<close>

definition push_first :: "'r list \<Rightarrow> 'r list \<Rightarrow> 'r list" where
  "push_first rows saved = (case rows of [] \<Rightarrow> saved | r # _ \<Rightarrow> saved @ [r])"

section \<open>The public routes (routes/structure)\<close>

subsection \<open>Rate limiter and concurrency guard\<close>

text \<open>
  \<^verbatim>\<open>rateLimitMap\<close> is a \<^verbatim>\<open>Map\<close> from the client identifier to a record
  \<^verbatim>\<open>{ count, resetTime }\<close>. Times are the milliseconds of \<^verbatim>\<open>Date.now()\<close>.
\<close>

record rate_record =
  count :: nat
  resetTime :: int

type_synonym rateLimitMap = "string \<rightharpoonup> rate_record"

text \<open>What the middleware does with the request: \<^verbatim>\<open>next()\<close> or a 429 response.\<close>

datatype verdict = Next | Reject429

definition windowMs :: int where
  "windowMs = 15 * 60 * 1000"

definition maxRequests :: nat where
  "maxRequests = 10"

text \<open>
  \<^verbatim>\<open>req.ip || req.connection.remoteAddress || 'unknown'\<close>: a missing or empty string is
  falsy.
\<close>

definition client_ip :: "string option \<Rightarrow> string option \<Rightarrow> string" where
  "client_ip ip remoteAddress =
     (if truthy_str ip then template ip
      else if truthy_str remoteAddress then template remoteAddress
      else ''unknown'')"

definition rateLimitMiddleware :: "string \<Rightarrow> int \<Rightarrow> rateLimitMap \<Rightarrow> verdict \<times> rateLimitMap" where
  "rateLimitMiddleware ip now m =
     (case m ip of
        None \<Rightarrow> (Next, m(ip \<mapsto> \<lparr>count = 1, resetTime = now + windowMs\<rparr>))
      | Some rec \<Rightarrow>
          if now > resetTime rec
          then (Next, m(ip \<mapsto> rec\<lparr>count := 1, resetTime := now + windowMs\<rparr>))
          else
            let rec' = rec\<lparr>count := count rec + 1\<rparr>
            in (if count rec' > maxRequests then Reject429 else Next, m(ip \<mapsto> rec')))"

text \<open>A sequence of checks by one client, at the given times, in order.\<close>

fun run_checks :: "string \<Rightarrow> int list \<Rightarrow> rateLimitMap \<Rightarrow> verdict list \<times> rateLimitMap" where
  "run_checks ip [] m = ([], m)"
| "run_checks ip (now # nows) m =
     (let (v, m') = rateLimitMiddleware ip now m;
          (vs, m'') = run_checks ip nows m'
      in (v # vs, m''))"

text \<open>
  The state of the process: the two maps of the module and the database behind
  \<^verbatim>\<open>query\<close>.
\<close>

record server =
  rateLimitMap :: rateLimitMap
  activeFetches :: "string set"
  database :: db

datatype route = FetchOutBoards | FetchOutSubjects | FetchOutChapters

text \<open>The check of the required fields; its message when it fails.\<close>

fun missing_info :: "route \<Rightarrow> body \<Rightarrow> string option" where
  "missing_info FetchOutBoards b =
     (if \<not> truthy_id (state_id b) \<or> \<not> truthy_str (state_name b) then Some ''Missing state info''
      else None)"
| "missing_info FetchOutSubjects b =
     (if \<not> truthy_id (board_id b) \<or> \<not> truthy_str (board_name b) \<or> \<not> truthy_id (class_id b)
         \<or> \<not> truthy_str (class_name b)
      then Some ''Missing required info'' else None)"
| "missing_info FetchOutChapters b =
     (if \<not> truthy_id (subject_id b) \<or> \<not> truthy_str (subject_name b)
         \<or> \<not> truthy_str (board_name b) \<or> \<not> truthy_str (class_name b)
      then Some ''Missing required info'' else None)"

text \<open>An id in a template string.\<close>

definition id_text :: "int option \<Rightarrow> string" where
  "id_text i = (case i of None \<Rightarrow> ''undefined'' | Some n \<Rightarrow> number_text n)"

text \<open>
  \<^verbatim>\<open>`boards_${state_id}`\<close>,
  \<^verbatim>\<open>`subjects_${board_id}_${class_id}_${stream_id || 'all'}`\<close>,
  \<^verbatim>\<open>`chapters_${subject_id}`\<close>
\<close>

fun fetch_key :: "route \<Rightarrow> body \<Rightarrow> string" where
  "fetch_key FetchOutBoards b = ''boards_'' @ id_text (state_id b)"
| "fetch_key FetchOutSubjects b =
     ''subjects_'' @ id_text (board_id b) @ ''_'' @ id_text (class_id b) @ ''_''
       @ (if truthy_id (stream_id b) then id_text (stream_id b) else ''all'')"
| "fetch_key FetchOutChapters b = ''chapters_'' @ id_text (subject_id b)"

text \<open>
  A public route up to its \<^verbatim>\<open>try\<close>: the rate limiter, the check of the body, the
  guard. It answers at once (\<open>Inl\<close>), or it has added its key to \<^verbatim>\<open>activeFetches\<close> and
  goes on (\<open>Inr\<close> the key). No \<^verbatim>\<open>await\<close> separates these steps.
\<close>

definition enter ::
    "route \<Rightarrow> string \<Rightarrow> int \<Rightarrow> body \<Rightarrow> server \<Rightarrow> ((nat \<times> string) response + string) \<times> server" where
  "enter rt ip now b srv =
     (case rateLimitMiddleware ip now (rateLimitMap srv) of
        (Reject429, m') \<Rightarrow>
          (Inl (Status429 ''Too many fetch requests from this IP. Please wait 15 minutes.''),
           srv\<lparr>rateLimitMap := m'\<rparr>)
      | (Next, m') \<Rightarrow>
          (case missing_info rt b of
             Some msg \<Rightarrow> (Inl (Status400 msg), srv\<lparr>rateLimitMap := m'\<rparr>)
           | None \<Rightarrow>
               let key = fetch_key rt b
               in if key \<in> activeFetches srv
                  then (Inl (Status429 ''Fetch already in progress. Please wait.''),
                        srv\<lparr>rateLimitMap := m'\<rparr>)
                  else (Inr key,
                        srv\<lparr>rateLimitMap := m', activeFetches := insert key (activeFetches srv)\<rparr>)))"

text \<open>The \<^verbatim>\<open>finally\<close> block: \<^verbatim>\<open>activeFetches.delete(key)\<close>.\<close>

definition release :: "string \<Rightarrow> server \<Rightarrow> server" where
  "release key srv = srv\<lparr>activeFetches := activeFetches srv - {key}\<rparr>"

subsection \<open>The loops of the public routes\<close>

text \<open>\<^verbatim>\<open>(item.name || '').substring(0, 200).trim()\<close>\<close>

definition item_name :: "jsval \<Rightarrow> js_error + string" where
  "item_name item =
     (case get_prop item ''name'' of
        Inl e \<Rightarrow> Inl e
      | Inr v \<Rightarrow>
          if truthy v
          then (case v of JStr s \<Rightarrow> Inr (trim (substring0 200 s)) | _ \<Rightarrow> Inl TypeError)
          else Inr (trim (substring0 200 [])))"

definition nonSchoolKeywords :: "string list" where
  "nonSchoolKeywords =
     [''university'', ''joint entrance'', ''entrance examination'', ''jee'', ''neet'',
      ''council of higher'', ''technical education'', ''medical'', ''engineering'', ''college'',
      ''polytechnic'', ''distance education'', ''open university'', ''deemed'', ''affiliated'']"

definition isNonSchoolBoard :: "string \<Rightarrow> bool" where
  "isNonSchoolBoard name = list_ex (\<lambda>kw. js_includes (toLowerCase name) kw) nonSchoolKeywords"

type_synonym saved = "(nat \<times> string) list"

definition fetch_out_boards_step ::
    "(nat \<Rightarrow> bool) \<Rightarrow> int option \<Rightarrow> jsval \<Rightarrow> saved \<times> db \<Rightarrow> js_error option \<times> (saved \<times> db)" where
  "fetch_out_boards_step faults sid item = (\<lambda>(saved, d).
     case item_name item of
       Inl e \<Rightarrow> (Some e, (saved, d))
     | Inr name \<Rightarrow>
         if name = [] then (None, (saved, d))
         else if isNonSchoolBoard name then (None, (saved, d))
         else (case query faults (DML (sql_insert_boards_do_update name sid)) d of
                 (Inl e, d') \<Rightarrow> (Some e, (saved, d'))
               | (Inr rows, d') \<Rightarrow> (None, (push_first rows saved, d'))))"

definition fetch_out_subjects_step ::
    "(nat \<Rightarrow> bool) \<Rightarrow> int option \<Rightarrow> int option \<Rightarrow> int option \<Rightarrow> jsval \<Rightarrow> saved \<times> db
      \<Rightarrow> js_error option \<times> (saved \<times> db)" where
  "fetch_out_subjects_step faults bid cid strm item = (\<lambda>(saved, d).
     case item_name item of
       Inl e \<Rightarrow> (Some e, (saved, d))
     | Inr name \<Rightarrow>
         if name = [] then (None, (saved, d))
         else
           let stream = (if truthy_id strm then strm else None)
           in (case query faults (DML (sql_select_subjects bid cid stream name)) d of
                 (Inl e, d1) \<Rightarrow> (Some e, (saved, d1))
               | (Inr [], d1) \<Rightarrow>
                   (case query faults
                           (DML (sql_insert_subjects_fetch_out name bid cid stream)) d1 of
                      (Inl e, d2) \<Rightarrow> (Some e, (saved, d2))
                    | (Inr rows, d2) \<Rightarrow> (None, (push_first rows saved, d2)))
               | (Inr (existing # _), d1) \<Rightarrow>
                   (case query faults (DML (sql_update_subjects_active existing)) d1 of
                      (Inl e, d2) \<Rightarrow> (Some e, (saved, d2))
                    | (Inr _, d2) \<Rightarrow> (None, (saved @ [(existing, name)], d2)))))"

definition fetch_out_chapters_step ::
    "(nat \<Rightarrow> bool) \<Rightarrow> int option \<Rightarrow> jsval \<Rightarrow> saved \<times> db \<Rightarrow> js_error option \<times> (saved \<times> db)" where
  "fetch_out_chapters_step faults subj item = (\<lambda>(saved, d).
     case item_name item of
       Inl e \<Rightarrow> (Some e, (saved, d))
     | Inr name \<Rightarrow>
         if name = [] then (None, (saved, d))
         else (case query faults (DML (sql_select_chapters subj name)) d of
                 (Inl e, d1) \<Rightarrow> (Some e, (saved, d1))
               | (Inr [], d1) \<Rightarrow>
                   (case query faults (DML (sql_insert_chapters_do_update name subj)) d1 of
                      (Inl e, d2) \<Rightarrow> (Some e, (saved, d2))
                    | (Inr rows, d2) \<Rightarrow> (None, (push_first rows saved, d2)))
               | (Inr (existing # _), d1) \<Rightarrow>
                   (case query faults (DML (sql_update_chapters_active existing)) d1 of
                      (Inl e, d2) \<Rightarrow> (Some e, (saved, d2))
                    | (Inr _, d2) \<Rightarrow> (None, (saved @ [(existing, name)], d2)))))"

text \<open>
  The \<^verbatim>\<open>try\<close> and \<^verbatim>\<open>catch\<close> of a public route, from the list its generator returned:
  the response and the database after it.
\<close>

fun fetch_out_body ::
    "(nat \<Rightarrow> bool) \<Rightarrow> route \<Rightarrow> body \<Rightarrow> jsval list \<Rightarrow> db \<Rightarrow> (nat \<times> string) response \<times> db" where
  "fetch_out_body faults FetchOutBoards b items d =
     (case for_of (fetch_out_boards_step faults (state_id b)) items ([], d) of
        (Some err, (saved, d')) \<Rightarrow> (Status500 ''Failed to fetch boards'', d')
      | (None, (saved, d')) \<Rightarrow> (Json200 saved, d'))"
| "fetch_out_body faults FetchOutSubjects b items d =
     (case for_of (fetch_out_subjects_step faults (board_id b) (class_id b) (stream_id b))
             items ([], d) of
        (Some err, (saved, d')) \<Rightarrow> (Status500 ''Failed to fetch subjects'', d')
      | (None, (saved, d')) \<Rightarrow> (Json200 saved, d'))"
| "fetch_out_body faults FetchOutChapters b items d =
     (case for_of (fetch_out_chapters_step faults (subject_id b)) items ([], d) of
        (Some err, (saved, d')) \<Rightarrow> (Status500 ''Failed to fetch chapters'', d')
      | (None, (saved, d')) \<Rightarrow> (Json200 saved, d'))"

text \<open>The call of the generator at the head of the \<^verbatim>\<open>try\<close> block.\<close>

fun generate :: "ai_env \<Rightarrow> route \<Rightarrow> body \<Rightarrow> jsval list \<times> (string \<times> string) list" where
  "generate env FetchOutBoards b = generateSchoolBoards env (body_text (state_name b))"
| "generate env FetchOutSubjects b =
     generateSchoolSubjects env (body_text (board_name b)) (body_text (class_name b)) (stream_name b)"
| "generate env FetchOutChapters b =
     generateSchoolChapters env (body_text (subject_name b)) (body_text (board_name b))
       (body_text (class_name b))"

text \<open>A public route run from its first line to its last, with no other request between.\<close>

definition fetch_out ::
    "ai_env \<Rightarrow> (nat \<Rightarrow> bool) \<Rightarrow> route \<Rightarrow> string \<Rightarrow> int \<Rightarrow> body \<Rightarrow> server
      \<Rightarrow> (nat \<times> string) response \<times> server" where
  "fetch_out env faults rt ip now b srv =
     (case enter rt ip now b srv of
        (Inl resp, srv1) \<Rightarrow> (resp, srv1)
      | (Inr key, srv1) \<Rightarrow>
          let (resp, d') = fetch_out_body faults rt b (fst (generate env rt b)) (database srv1)
          in (resp, release key (srv1\<lparr>database := d'\<rparr>)))"

subsection \<open>Requests in flight\<close>

text \<open>
  The process serves many requests on one thread: a handler runs until its next
  \<^verbatim>\<open>await\<close>, and other handlers run meanwhile. A request is waiting (not yet
  received), running (it holds its key and is suspended at an \<^verbatim>\<open>await\<close> of its
  \<^verbatim>\<open>try\<close> block) or finished, with the response it sent (\<open>None\<close>: an error left the
  handler uncaught, after the \<^verbatim>\<open>finally\<close> block).
\<close>

record request =
  route_of :: route
  ip_of :: string
  body_of :: body

datatype task = Waiting | Running string | Finished "(nat \<times> string) response option"

record world =
  proc :: server
  tasks :: "nat \<Rightarrow> task"

text \<open>
  What happens next: request \<open>i\<close> is received at time \<open>now\<close> and runs up to its first
  \<^verbatim>\<open>await\<close>; a statement of the running request \<open>i\<close> completes and leaves the database
  as \<open>d'\<close> (which statement, and with what effect, is left open); the running request
  \<open>i\<close> leaves its \<^verbatim>\<open>try\<close> statement with an outcome, through \<^verbatim>\<open>finally\<close>. An event
  of a request that is not in the state for it does not happen.
\<close>

datatype event =
    Arrive nat int
  | Work nat db
  | Finish nat "(nat \<times> string) response option"

fun fire :: "(nat \<Rightarrow> request) \<Rightarrow> event \<Rightarrow> world \<Rightarrow> world" where
  "fire reqs (Arrive i now) w =
     (case tasks w i of
        Waiting \<Rightarrow>
          (case enter (route_of (reqs i)) (ip_of (reqs i)) now (body_of (reqs i)) (proc w) of
             (Inl resp, srv') \<Rightarrow> w\<lparr>proc := srv', tasks := (tasks w)(i := Finished (Some resp))\<rparr>
           | (Inr key, srv') \<Rightarrow> w\<lparr>proc := srv', tasks := (tasks w)(i := Running key)\<rparr>)
      | _ \<Rightarrow> w)"
| "fire reqs (Work i d') w =
     (case tasks w i of
        Running key \<Rightarrow> w\<lparr>proc := (proc w)\<lparr>database := d'\<rparr>\<rparr>
      | _ \<Rightarrow> w)"
| "fire reqs (Finish i outcome) w =
     (case tasks w i of
        Running key \<Rightarrow> w\<lparr>proc := release key (proc w), tasks := (tasks w)(i := Finished outcome)\<rparr>
      | _ \<Rightarrow> w)"

definition run :: "(nat \<Rightarrow> request) \<Rightarrow> event list \<Rightarrow> world \<Rightarrow> world" where
  "run reqs evs w = fold (fire reqs) evs w"

text \<open>The process at its start: no key is held and no request has been received.\<close>

definition initial :: "world \<Rightarrow> bool" where
  "initial w = (activeFetches (proc w) = {} \<and> (\<forall>i. tasks w i = Waiting))"

text \<open>The request an event belongs to.\<close>

fun actor :: "event \<Rightarrow> nat" where
  "actor (Arrive i now) = i"
| "actor (Work i d') = i"
| "actor (Finish i outcome) = i"

section \<open>The admin routes (routes/aiFetch)\<close>

text \<open>
  \<^verbatim>\<open>name.toLowerCase().includes(kw) || name.toLowerCase().includes('placeholder')\<close>
\<close>

definition is_placeholder :: "string \<Rightarrow> string \<Rightarrow> bool" where
  "is_placeholder kw name =
     (js_includes (toLowerCase name) kw \<or> js_includes (toLowerCase name) ''placeholder'')"

type_synonym 'r step = "jsval \<Rightarrow> 'r list \<times> db \<Rightarrow> js_error option \<times> ('r list \<times> db)"

text \<open>
  The bodies of the five loops. A candidate that is not a string has no
  \<^verbatim>\<open>toLowerCase\<close>: the guard throws a TypeError.
\<close>

definition ai_fetch_boards_step :: "(nat \<Rightarrow> bool) \<Rightarrow> int option \<Rightarrow> node_row step" where
  "ai_fetch_boards_step faults sid name = (\<lambda>(saved, d).
     case name of
       JStr s \<Rightarrow>
         if is_placeholder ''board '' s then (None, (saved, d))
         else (case query faults (DML (sql_insert_boards_do_nothing s sid True)) d of
                 (Inl e, d') \<Rightarrow> (Some e, (saved, d'))
               | (Inr rows, d') \<Rightarrow> (None, (push_first rows saved, d')))
     | _ \<Rightarrow> (Some TypeError, (saved, d)))"

definition ai_fetch_universities_step ::
    "(pending_row \<Rightarrow> pending_row \<Rightarrow> bool) \<Rightarrow> (nat \<Rightarrow> bool) \<Rightarrow> int option \<Rightarrow> pending_row step" where
  "ai_fetch_universities_step conflict faults sid name = (\<lambda>(saved, d).
     case name of
       JStr s \<Rightarrow>
         if is_placeholder ''university '' s then (None, (saved, d))
         else (case query faults (DML (sql_insert_universities conflict (Some s) sid False)) d of
                 (Inl e, d') \<Rightarrow> (Some e, (saved, d'))
               | (Inr rows, d') \<Rightarrow> (None, (push_first rows saved, d')))
     | _ \<Rightarrow> (Some TypeError, (saved, d)))"

text \<open>
  The loop of the papers has no guard: the candidate goes to the driver as it is, and
  \<open>render\<close> is the text the driver writes for it (\<open>None\<close>: NULL).
\<close>

definition ai_fetch_papers_step ::
    "(jsval \<Rightarrow> string option) \<Rightarrow> (pending_row \<Rightarrow> pending_row \<Rightarrow> bool) \<Rightarrow> (nat \<Rightarrow> bool) \<Rightarrow> int option
      \<Rightarrow> pending_row step" where
  "ai_fetch_papers_step render conflict faults cid name = (\<lambda>(saved, d).
     case query faults (DML (sql_insert_papers_stages conflict (render name) cid False)) d of
       (Inl e, d') \<Rightarrow> (Some e, (saved, d'))
     | (Inr rows, d') \<Rightarrow> (None, (push_first rows saved, d')))"

definition ai_fetch_subjects_step :: "(nat \<Rightarrow> bool) \<Rightarrow> body \<Rightarrow> subject_row step" where
  "ai_fetch_subjects_step faults b name = (\<lambda>(saved, d).
     case name of
       JStr s \<Rightarrow>
         if is_placeholder ''subject '' s then (None, (saved, d))
         else (case query faults
                      (DML (sql_insert_subjects_admin s (category_id b) (board_id b)
                              (university_id b) (class_id b) (stream_id b) (semester_id b)
                              (degree_type_id b) (paper_stage_id b))) d of
                 (Inl e, d') \<Rightarrow> (Some e, (saved, d'))
               | (Inr rows, d') \<Rightarrow> (None, (push_first rows saved, d')))
     | _ \<Rightarrow> (Some TypeError, (saved, d)))"

definition ai_fetch_chapters_step :: "(nat \<Rightarrow> bool) \<Rightarrow> int option \<Rightarrow> node_row step" where
  "ai_fetch_chapters_step faults subj name = (\<lambda>(saved, d).
     case name of
       JStr s \<Rightarrow>
         if is_placeholder ''chapter '' s then (None, (saved, d))
         else (case query faults (DML (sql_insert_chapters_do_nothing s subj True)) d of
                 (Inl e, d') \<Rightarrow> (Some e, (saved, d'))
               | (Inr rows, d') \<Rightarrow> (None, (push_first rows saved, d')))
     | _ \<Rightarrow> (Some TypeError, (saved, d)))"








section \<open>Notions used in the properties\<close>




text \<open>The number of rows of a table that a condition selects.\<close>

definition rows_for :: "('r \<Rightarrow> bool) \<Rightarrow> 'r list \<Rightarrow> nat" where
  "rows_for P rows = length (filter P rows)"

text \<open>The rows of \<^verbatim>\<open>universities\<close> or \<^verbatim>\<open>papers_stages\<close> for a parent key and a name.\<close>

definition pending_for :: "string \<Rightarrow> int \<Rightarrow> pending_row \<Rightarrow> bool" where
  "pending_for name p r = (p_parent_id r = Some p \<and> p_name r = Some name)"

text \<open>No active provider row, or a first row without an API key.\<close>

definition no_provider :: "ai_env \<Rightarrow> bool" where
  "no_provider env =
     (case provider_rows env of
        Inl e \<Rightarrow> False
      | Inr [] \<Rightarrow> True
      | Inr (p # ps) \<Rightarrow> \<not> truthy_str (api_key p))"


text \<open>
  The guard's invariant: \<^verbatim>\<open>activeFetches\<close> holds exactly the keys of the running
  requests, and no two running requests hold the same key.
\<close>

definition guard_inv :: "world \<Rightarrow> bool" where
  "guard_inv w =
     ((\<forall>k. k \<in> activeFetches (proc w) \<longleftrightarrow> (\<exists>i. tasks w i = Running k))
      \<and> (\<forall>i j k. tasks w i = Running k \<and> tasks w j = Running k \<longrightarrow> i = j))"

section \<open>Concrete inputs\<close>

text \<open>No statement fails.\<close>

definition no_faults :: "nat \<Rightarrow> bool" where
  "no_faults k = False"

text \<open>An empty database, and one with the board CBSE of state 7.\<close>

definition db0 :: db where
  "db0 = \<lparr>committed = \<lparr>boards = [], chapters = [], subjects = [], universities = [],
                        papers_stages = []\<rparr>,
          working = None, seq = 1, calls = 0\<rparr>"



text \<open>A database with the subject Physics of board 3 and class 9, under no stream.\<close>

definition physics :: subject_row where
  "physics = \<lparr>s_id = 1, s_name = ''Physics'', s_category_id = Some 1, s_board_id = Some 3,
               s_university_id = None, s_class_id = Some 9, s_stream_id = None,
               s_semester_id = None, s_degree_type_id = None, s_paper_stage_id = None,
               s_is_active = True, s_is_approved = Some True\<rparr>"

definition db_physics :: db where
  "db_physics = db0\<lparr>committed := (committed db0)\<lparr>subjects := [physics]\<rparr>, seq := 2\<rparr>"

text \<open>
  Environments of the generation client: no provider row; a provider that answers with
  the text \<^verbatim>\<open>[]\<close>; a provider that cannot be reached; one whose answer has no text; one
  whose text is not JSON.
\<close>

definition offline :: ai_env where
  "offline = \<lparr>provider_rows = Inr [], axios_post = (\<lambda>endpoint prompt. Inl NetworkError),
              JSON_parse = (\<lambda>text. None)\<rparr>"

definition envelope :: "string \<Rightarrow> jsval" where
  "envelope t =
     JObj [(''candidates'',
            JArr [JObj [(''content'', JObj [(''parts'', JArr [JObj [(''text'', JStr t)]])])]])]"

definition gemini :: ai_provider where
  "gemini = \<lparr>api_key = Some ''key'', model_name = Some ''model'', base_url = Some ''https://ai.example''\<rparr>"

definition empty_reply :: ai_env where
  "empty_reply =
     \<lparr>provider_rows = Inr [gemini],
      axios_post = (\<lambda>endpoint prompt. Inr (envelope ''[]'')),
      JSON_parse = (\<lambda>text. if text = ''[]'' then Some (JArr []) else None)\<rparr>"

definition unreachable :: ai_env where
  "unreachable = empty_reply\<lparr>axios_post := (\<lambda>endpoint prompt. Inl NetworkError)\<rparr>"

definition no_text :: ai_env where
  "no_text = empty_reply\<lparr>axios_post := (\<lambda>endpoint prompt. Inr (JObj [(''candidates'', JArr [])]))\<rparr>"

definition garbled :: ai_env where
  "garbled = empty_reply\<lparr>axios_post := (\<lambda>endpoint prompt. Inr (envelope ''Sorry, I cannot''))\<rparr>"

text \<open>A candidate object with a name; a loop body run twice from a state.\<close>

definition candidate :: "string \<Rightarrow> jsval" where
  "candidate name = JObj [(''name'', JStr name)]"

definition twice :: "('s \<Rightarrow> 'e \<times> 's) \<Rightarrow> 's \<Rightarrow> 's" where
  "twice step s = snd (step (snd (step s)))"



definition body7 :: body where
  "body7 = \<lparr>state_id = Some 7, state_name = Some ''West Bengal'', board_id = Some 3,
             board_name = Some ''WBBSE'', class_id = Some 9, class_name = Some ''Class 9'',
             stream_id = None, stream_name = None, subject_id = Some 4,
             subject_name = Some ''Physics'', category_id = Some 1,
             category_name = Some ''School'', university_id = None, semester_id = None,
             degree_type_id = None, paper_stage_id = None, context_name = Some ''WBBSE Class 9''\<rparr>"


definition render_text :: "jsval \<Rightarrow> string option" where
  "render_text v = (case v of JStr s \<Rightarrow> Some s | _ \<Rightarrow> None)"

text \<open>
  Requests for the boards of state 7, all alike, and a process that has just started.
\<close>

definition same_request :: "nat \<Rightarrow> request" where
  "same_request i = \<lparr>route_of = FetchOutBoards, ip_of = ''10.0.0.1'', body_of = body7\<rparr>"

definition w_start :: world where
  "w_start = \<lparr>proc = \<lparr>rateLimitMap = Map.empty, activeFetches = {}, database = db0\<rparr>,
              tasks = (\<lambda>i. Waiting)\<rparr>"

section \<open>General lemmas\<close>

lemma current_set_current [simp]: "current (set_current st d) = st"
  by (simp add: current_def set_current_def split: option.split)





section \<open>Properties of the rate limiter\<close>

text \<open>
  While the window of a client is open, the checks of that client only count: each is
  rejected exactly when the count it reaches is above 10, and the count ends at what it
  was plus the number of checks, rejected ones included.
\<close>

lemma run_checks_open_window:
  "m ip = Some r \<Longrightarrow> \<forall>t\<in>set nows. t \<le> resetTime r \<Longrightarrow>
   fst (run_checks ip nows m)
     = map (\<lambda>k. if count r + Suc k > 10 then Reject429 else Next) [0..<length nows]
   \<and> snd (run_checks ip nows m) = m(ip \<mapsto> r\<lparr>count := count r + length nows\<rparr>)"
proof (induction nows arbitrary: m r)
  case Nil
  then show ?case by (simp add: fun_upd_idem)
next
  case (Cons t ts)
  let ?r = "r\<lparr>count := count r + 1\<rparr>"
  have step: "rateLimitMiddleware ip t m
      = (if count r + 1 > 10 then Reject429 else Next, m(ip \<mapsto> ?r))"
    using Cons.prems by (simp add: rateLimitMiddleware_def maxRequests_def Let_def)
  have ih: "fst (run_checks ip ts (m(ip \<mapsto> ?r)))
       = map (\<lambda>k. if count ?r + Suc k > 10 then Reject429 else Next) [0..<length ts]
     \<and> snd (run_checks ip ts (m(ip \<mapsto> ?r)))
       = (m(ip \<mapsto> ?r))(ip \<mapsto> ?r\<lparr>count := count ?r + length ts\<rparr>)"
    using Cons.prems by (intro Cons.IH) simp_all
  have shift: "map (\<lambda>k. if count r + Suc k > 10 then Reject429 else Next) [0..<Suc (length ts)]
      = (if count r + 1 > 10 then Reject429 else Next)
        # map (\<lambda>k. if count ?r + Suc k > 10 then Reject429 else Next) [0..<length ts]"
    by (simp add: upt_conv_Cons map_Suc_upt [symmetric] del: upt_Suc)
  show ?case
    using step ih shift by (simp add: split_beta del: upt_Suc)
qed

text \<open>
  A client seen for the first time, with all its checks inside the first window: the
  first ten are allowed and every later one is rejected.
\<close>

lemma run_checks_new_client:
  assumes "m ip = None" and "\<forall>t\<in>set nows. t \<le> now + 900000"
  shows "fst (run_checks ip (now # nows) m)
           = map (\<lambda>k. if k \<ge> 10 then Reject429 else Next) [0..<Suc (length nows)]"
proof -
  let ?r = "\<lparr>count = 1, resetTime = now + 900000\<rparr>"
  have first: "rateLimitMiddleware ip now m = (Next, m(ip \<mapsto> ?r))"
    using assms(1) by (simp add: rateLimitMiddleware_def windowMs_def)
  have rest: "fst (run_checks ip nows (m(ip \<mapsto> ?r)))
      = map (\<lambda>k. if count ?r + Suc k > 10 then Reject429 else Next) [0..<length nows]"
    using run_checks_open_window [of "m(ip \<mapsto> ?r)" ip ?r nows] assms(2) by simp
  have shift: "map (\<lambda>k. if k \<ge> 10 then Reject429 else Next) [0..<Suc (length nows)]
      = Next # map (\<lambda>k. if Suc k \<ge> 10 then Reject429 else Next) [0..<length nows]"
    by (simp add: upt_conv_Cons map_Suc_upt [symmetric] del: upt_Suc)
  show ?thesis
    using first rest shift by (simp add: split_beta Suc_le_eq del: upt_Suc)
qed

text \<open>
  Claim C8. Whatever checks came before (for every state \<open>m\<close> of the map), a check by
  the client \<open>ip\<close> at time \<open>now\<close> does this: with no record for the client it stores a
  record with count 1 and a window of 15 minutes from \<open>now\<close>, and allows; with a record
  whose \<open>resetTime\<close> has passed it sets the count to 1 and opens a new window, and allows,
  so that a client that was limited is allowed again; otherwise it adds one to the count,
  also when it rejects, and it rejects exactly when the new count is above 10. The
  records of the other clients stay as they are. For a sequence of checks: inside an open
  window every check adds one to the count and is rejected exactly when the count it
  reaches is above 10; and of the checks of a new client inside its first window, the
  first ten are allowed and all the later ones are rejected.
\<close>

theorem rateLimitMiddleware_checks:
  "(m ip = None \<longrightarrow>
      rateLimitMiddleware ip now m = (Next, m(ip \<mapsto> \<lparr>count = 1, resetTime = now + 900000\<rparr>)))
   \<and> (\<forall>r. m ip = Some r \<and> now > resetTime r \<longrightarrow>
      rateLimitMiddleware ip now m = (Next, m(ip \<mapsto> r\<lparr>count := 1, resetTime := now + 900000\<rparr>)))
   \<and> (\<forall>r. m ip = Some r \<and> \<not> now > resetTime r \<longrightarrow>
      rateLimitMiddleware ip now m =
        (if count r + 1 > 10 then Reject429 else Next, m(ip \<mapsto> r\<lparr>count := count r + 1\<rparr>)))
   \<and> (\<forall>ip'. ip' \<noteq> ip \<longrightarrow> snd (rateLimitMiddleware ip now m) ip' = m ip')
   \<and> (\<forall>r. m ip = Some r \<and> (\<forall>t\<in>set nows. t \<le> resetTime r) \<longrightarrow>
      fst (run_checks ip nows m)
        = map (\<lambda>k. if count r + Suc k > 10 then Reject429 else Next) [0..<length nows]
      \<and> snd (run_checks ip nows m) = m(ip \<mapsto> r\<lparr>count := count r + length nows\<rparr>))
   \<and> (m ip = None \<and> (\<forall>t\<in>set nows. t \<le> now + 900000) \<longrightarrow>
      fst (run_checks ip (now # nows) m)
        = map (\<lambda>k. if k \<ge> 10 then Reject429 else Next) [0..<Suc (length nows)])"
proof (intro conjI)
  show "\<forall>r. m ip = Some r \<and> (\<forall>t\<in>set nows. t \<le> resetTime r) \<longrightarrow>
      fst (run_checks ip nows m)
        = map (\<lambda>k. if count r + Suc k > 10 then Reject429 else Next) [0..<length nows]
      \<and> snd (run_checks ip nows m) = m(ip \<mapsto> r\<lparr>count := count r + length nows\<rparr>)"
    using run_checks_open_window [of m ip _ nows] by blast
  show "m ip = None \<and> (\<forall>t\<in>set nows. t \<le> now + 900000) \<longrightarrow>
      fst (run_checks ip (now # nows) m)
        = map (\<lambda>k. if k \<ge> 10 then Reject429 else Next) [0..<Suc (length nows)]"
    using run_checks_new_client [of m ip nows now] by blast
qed (simp_all add: rateLimitMiddleware_def windowMs_def maxRequests_def Let_def split: option.split)

theorem rateLimitMiddleware_checks_witness:
  "rateLimitMiddleware ''10.0.0.1'' 5 Map.empty
      = (Next, [''10.0.0.1'' \<mapsto> \<lparr>count = 1, resetTime = 900005\<rparr>])
   \<and> rateLimitMiddleware ''10.0.0.1'' 900006 [''10.0.0.1'' \<mapsto> \<lparr>count = 11, resetTime = 900005\<rparr>]
      = (Next, [''10.0.0.1'' \<mapsto> \<lparr>count = 1, resetTime = 1800006\<rparr>])
   \<and> rateLimitMiddleware ''10.0.0.1'' 900005 [''10.0.0.1'' \<mapsto> \<lparr>count = 10, resetTime = 900005\<rparr>]
      = (Reject429, [''10.0.0.1'' \<mapsto> \<lparr>count = 11, resetTime = 900005\<rparr>])
   \<and> snd (rateLimitMiddleware ''10.0.0.1'' 5 Map.empty) ''10.0.0.2'' = None
   \<and> fst (run_checks ''10.0.0.1'' [6, 7] [''10.0.0.1'' \<mapsto> \<lparr>count = 9, resetTime = 900005\<rparr>])
      = [Next, Reject429]
   \<and> fst (run_checks ''10.0.0.1'' [0, 1, 2, 3, 4, 5, 6, 7, 8, 9, 10, 11] Map.empty)
      = [Next, Next, Next, Next, Next, Next, Next, Next, Next, Next, Reject429, Reject429]"
proof -
  note a = rateLimitMiddleware_checks [of Map.empty "''10.0.0.1''" 5 "[]"]
  note b = rateLimitMiddleware_checks
    [of "[''10.0.0.1'' \<mapsto> \<lparr>count = 11, resetTime = 900005\<rparr>]" "''10.0.0.1''" 900006 "[]"]
  note c = rateLimitMiddleware_checks
    [of "[''10.0.0.1'' \<mapsto> \<lparr>count = 10, resetTime = 900005\<rparr>]" "''10.0.0.1''" 900005 "[]"]
  note d = rateLimitMiddleware_checks
    [of "[''10.0.0.1'' \<mapsto> \<lparr>count = 9, resetTime = 900005\<rparr>]" "''10.0.0.1''" 0 "[6, 7]",
      THEN conjunct2, THEN conjunct2, THEN conjunct2, THEN conjunct2, THEN conjunct1]
  note e = rateLimitMiddleware_checks
    [of Map.empty "''10.0.0.1''" 0 "[1, 2, 3, 4, 5, 6, 7, 8, 9, 10, 11]",
      THEN conjunct2, THEN conjunct2, THEN conjunct2, THEN conjunct2, THEN conjunct2]
  have d': "fst (run_checks ''10.0.0.1'' [6, 7] [''10.0.0.1'' \<mapsto> \<lparr>count = 9, resetTime = 900005\<rparr>])
      = [Next, Reject429]"
    using d by (simp add: upt_rec del: run_checks.simps)
  have e': "fst (run_checks ''10.0.0.1'' [0, 1, 2, 3, 4, 5, 6, 7, 8, 9, 10, 11] Map.empty)
      = [Next, Next, Next, Next, Next, Next, Next, Next, Next, Next, Reject429, Reject429]"
    using e by (simp add: upt_rec del: run_checks.simps)
  show ?thesis
    using a [THEN conjunct1] b [THEN conjunct2, THEN conjunct1]
      c [THEN conjunct2, THEN conjunct2, THEN conjunct1]
      a [THEN conjunct2, THEN conjunct2, THEN conjunct2, THEN conjunct1] d' e'
    by simp
qed

section \<open>The rows that the public subject route inserts\<close>








section \<open>Scope keys of the subject existence check\<close>

text \<open>
  Claim C2. In both subject routes the existence check compares the stream key
  null-aware. For a row of the same board and class (concrete ids) and the same name: a
  candidate with \<^verbatim>\<open>stream_id = null\<close> matches the row exactly when the row's
  \<^verbatim>\<open>stream_id\<close> is NULL, so it does not match a row with stream 5; a candidate with a
  concrete stream \<open>k\<close> matches exactly when the row's stream is \<open>k\<close>, so it does not
  match a row with a NULL stream.
\<close>

theorem subject_scope_null_aware:
  "s_board_id r = Some b \<Longrightarrow> s_class_id r = Some c \<Longrightarrow>
     (fetch_out_subject_where (Some b) (Some c) None (s_name r) r \<longleftrightarrow> s_stream_id r = None)
   \<and> (fetch_out_subject_where (Some b) (Some c) (Some k) (s_name r) r \<longleftrightarrow> s_stream_id r = Some k)
   \<and> (admin_subject_where (s_name r) (Some b) (Some c) None r \<longleftrightarrow> s_stream_id r = None)
   \<and> (admin_subject_where (s_name r) (Some b) (Some c) (Some k) r \<longleftrightarrow> s_stream_id r = Some k)"
  by (cases "s_stream_id r")
     (simp_all add: fetch_out_subject_where_def admin_subject_where_def sql_holds_def sql_and_def
        sql_or_def sql_eq_def sql_is_null_def)

theorem subject_scope_null_aware_witness:
  "fetch_out_subject_where (Some 3) (Some 9) None ''Physics''
      \<lparr>s_id = 1, s_name = ''Physics'', s_category_id = Some 1, s_board_id = Some 3,
       s_university_id = None, s_class_id = Some 9, s_stream_id = None, s_semester_id = None,
       s_degree_type_id = None, s_paper_stage_id = None, s_is_active = True,
       s_is_approved = Some True\<rparr>
   \<and> \<not> fetch_out_subject_where (Some 3) (Some 9) None ''Physics''
      \<lparr>s_id = 1, s_name = ''Physics'', s_category_id = Some 1, s_board_id = Some 3,
       s_university_id = None, s_class_id = Some 9, s_stream_id = Some 5, s_semester_id = None,
       s_degree_type_id = None, s_paper_stage_id = None, s_is_active = True,
       s_is_approved = Some True\<rparr>
   \<and> \<not> admin_subject_where ''Physics'' (Some 3) (Some 9) (Some 5)
      \<lparr>s_id = 1, s_name = ''Physics'', s_category_id = Some 1, s_board_id = Some 3,
       s_university_id = None, s_class_id = Some 9, s_stream_id = None, s_semester_id = None,
       s_degree_type_id = None, s_paper_stage_id = None, s_is_active = True,
       s_is_approved = Some True\<rparr>"
  using subject_scope_null_aware
      [of "\<lparr>s_id = 1, s_name = ''Physics'', s_category_id = Some 1, s_board_id = Some 3,
            s_university_id = None, s_class_id = Some 9, s_stream_id = None, s_semester_id = None,
            s_degree_type_id = None, s_paper_stage_id = None, s_is_active = True,
            s_is_approved = Some True\<rparr>" 3 9 5]
    subject_scope_null_aware
      [of "\<lparr>s_id = 1, s_name = ''Physics'', s_category_id = Some 1, s_board_id = Some 3,
            s_university_id = None, s_class_id = Some 9, s_stream_id = Some 5, s_semester_id = None,
            s_degree_type_id = None, s_paper_stage_id = None, s_is_active = True,
            s_is_approved = Some True\<rparr>" 3 9 5]
  by simp

section \<open>The filters of the board routes\<close>

lemma isNonSchoolBoard_university:
  "js_includes (toLowerCase name) ''university'' \<Longrightarrow> isNonSchoolBoard name"
  by (simp add: isNonSchoolBoard_def nonSchoolKeywords_def)

text \<open>
  Claim C5, as the routes are written. The admin board route skips the candidate
  "Board 1": it issues no statement for it and the database stays as it is. The public
  board route skips every candidate whose name, cut to its first 200 characters and
  trimmed as the route does, contains "university" in any letter case.
\<close>

theorem board_filters:
  "ai_fetch_boards_step faults sid (JStr ''Board 1'') (saved, d) = (None, (saved, d))
   \<and> (item_name item = Inr name \<and> js_includes (toLowerCase name) ''university'' \<longrightarrow>
        fetch_out_boards_step faults sid' item (saved', d') = (None, (saved', d')))"
proof
  have "is_placeholder ''board '' ''Board 1''"
    by (simp add: is_placeholder_def js_includes_def toLowerCase_def toLowerCase_char_def)
  then show "ai_fetch_boards_step faults sid (JStr ''Board 1'') (saved, d) = (None, (saved, d))"
    by (simp add: ai_fetch_boards_step_def)
next
  show "item_name item = Inr name \<and> js_includes (toLowerCase name) ''university'' \<longrightarrow>
        fetch_out_boards_step faults sid' item (saved', d') = (None, (saved', d'))"
    by (simp add: fetch_out_boards_step_def isNonSchoolBoard_university)
qed

theorem board_filters_witness:
  "ai_fetch_boards_step no_faults (Some 7) (JStr ''Board 1'') ([], db0) = (None, ([], db0))
   \<and> item_name (JObj [(''name'', JStr ''Some University Board'')]) = Inr ''Some University Board''
   \<and> js_includes (toLowerCase ''Some University Board'') ''university''
   \<and> fetch_out_boards_step no_faults (Some 7) (JObj [(''name'', JStr ''Some University Board'')])
         ([], db0)
        = (None, ([], db0))"
proof -
  have a: "item_name (JObj [(''name'', JStr ''Some University Board'')]) = Inr ''Some University Board''"
    by (simp add: item_name_def substring0_def trim_def is_space_def)
  have b: "js_includes (toLowerCase ''Some University Board'') ''university''"
    by (simp add: js_includes_def toLowerCase_def toLowerCase_char_def sublist_Cons_right)
  from a b show ?thesis
    using board_filters [where faults = no_faults and sid = "Some 7" and saved = "[]" and d = db0
      and item = "JObj [(''name'', JStr ''Some University Board'')]"
      and name = "''Some University Board''" and sid' = "Some 7" and saved' = "[]" and d' = db0]
    by simp
qed

text \<open>
  The public board route has no placeholder guard: it persists the candidate "Board 1".
\<close>

theorem fetch_out_boards_keeps_Board_1:
  "fetch_out_boards_step no_faults (Some 7) (JObj [(''name'', JStr ''Board 1'')]) ([], db0)
     = (None, ([(1, ''Board 1'')],
          db0\<lparr>committed := (committed db0)\<lparr>boards :=
                 [\<lparr>n_id = 1, n_name = ''Board 1'', n_parent_id = Some 7, n_is_active = True\<rparr>]\<rparr>,
               seq := 2, calls := 1\<rparr>))"
  by (simp add: fetch_out_boards_step_def item_name_def substring0_def trim_def is_space_def
        isNonSchoolBoard_def nonSchoolKeywords_def js_includes_def toLowerCase_def toLowerCase_char_def
        sublist_Cons_right query_def Let_def db0_def current_def set_current_def no_faults_def
        sql_insert_boards_do_update_def insert_node_do_update_def push_first_def)

section \<open>The generation client\<close>

lemma fetchAIStructure_no_provider:
  "no_provider env \<Longrightarrow> fetchAIStructure env type ctx = (fallbackMockStructure type ctx, [])"
  by (auto simp: no_provider_def fetchAIStructure_def fetchAIStructure_try_def
        split: sum.splits list.splits)

text \<open>
  Claim C6. With no active provider row, or with a row that has no API key, a structure
  fetch (for boards as for every other kind) returns the five items
  \<^verbatim>\<open>Sample <kind> <i> (<context>)\<close>, each with the mock marker \<^verbatim>\<open>Sample\<close>, and makes no
  outbound call: the list of its \<^verbatim>\<open>axios.post\<close> calls is empty. The school board
  generator then returns these five items as objects with a name.
\<close>

theorem no_provider_mock:
  "no_provider env \<Longrightarrow>
     fetchAIStructure env type ctx =
       (JArr (map (\<lambda>i. JStr (''Sample '' @ type @ '' '' @ i @ '' ('' @ ctx @ '')''))
                [''1'', ''2'', ''3'', ''4'', ''5'']), [])
     \<and> generateSchoolBoards env stateName =
       (map (\<lambda>i. JObj [(''name'',
                         JStr (''Sample boards '' @ i @ '' ('' @ boards_prompt stateName @ '')''))])
            [''1'', ''2'', ''3'', ''4'', ''5''], [])"
  by (simp add: fetchAIStructure_no_provider generateSchoolBoards_def fallbackMockStructure_def
         wrap_names_def wrap_name_def)

theorem no_provider_mock_witness:
  "no_provider offline
   \<and> fetchAIStructure offline ''boards'' ''ctx'' =
       (JArr [JStr ''Sample boards 1 (ctx)'', JStr ''Sample boards 2 (ctx)'',
              JStr ''Sample boards 3 (ctx)'', JStr ''Sample boards 4 (ctx)'',
              JStr ''Sample boards 5 (ctx)''], [])"
proof -
  have h: "no_provider offline" by (simp add: no_provider_def offline_def)
  from no_provider_mock [OF h, of "''boards''" "''ctx''"] h show ?thesis by simp
qed

lemma response_text_envelope: "response_text (envelope t) = JStr t"
  by (simp add: response_text_def envelope_def opt_prop_def)

lemma cleanText_brackets: "cleanText ''[]'' = ''[]''"
  by (simp add: cleanText_def trim_def is_space_def)

text \<open>
  Claim C7, as the client is written. With a provider configured, both the structure
  fetch and the question generation return the output of their fallback mock generator,
  and throw nothing, when the call to the provider fails (a network error or a status
  outside 2xx), when the response has no text (or a text that is not a string), and when
  the text is not JSON. An empty parse result is no failure: when the text parses to the
  empty array, the client returns the empty list and not the mock. In each of these
  cases the caller receives a list.
\<close>

theorem client_failures:
  assumes "provider_rows env = Inr (p # ps)" and "truthy_str (api_key p)"
  shows
   "(\<forall>e. axios_post env (endpoint_of p) (structure_prompt type ctx) = Inl e \<longrightarrow>
        fst (fetchAIStructure env type ctx) = fallbackMockStructure type ctx)
    \<and> (\<forall>data. axios_post env (endpoint_of p) (structure_prompt type ctx) = Inr data
          \<and> (\<not> truthy (response_text data) \<or> (\<forall>t. response_text data \<noteq> JStr t)) \<longrightarrow>
        fst (fetchAIStructure env type ctx) = fallbackMockStructure type ctx)
    \<and> (\<forall>data t. axios_post env (endpoint_of p) (structure_prompt type ctx) = Inr data
          \<and> response_text data = JStr t \<and> JSON_parse env (cleanText t) = None \<longrightarrow>
        fst (fetchAIStructure env type ctx) = fallbackMockStructure type ctx)
    \<and> (\<forall>data t. axios_post env (endpoint_of p) (structure_prompt type ctx) = Inr data
          \<and> response_text data = JStr t \<and> t \<noteq> [] \<and> JSON_parse env (cleanText t) = Some (JArr []) \<longrightarrow>
        fst (fetchAIStructure env type ctx) = JArr [])
    \<and> (\<forall>e. axios_post env (endpoint_of p) (mcq_prompt topic n) = Inl e \<longrightarrow>
        fst (generateMCQInitial env topic n) = fallbackMock topic n)
    \<and> (\<forall>data. axios_post env (endpoint_of p) (mcq_prompt topic n) = Inr data
          \<and> (\<not> truthy (response_text data) \<or> (\<forall>t. response_text data \<noteq> JStr t)) \<longrightarrow>
        fst (generateMCQInitial env topic n) = fallbackMock topic n)
    \<and> (\<forall>data t. axios_post env (endpoint_of p) (mcq_prompt topic n) = Inr data
          \<and> response_text data = JStr t \<and> JSON_parse env (cleanText t) = None \<longrightarrow>
        fst (generateMCQInitial env topic n) = fallbackMock topic n)
    \<and> (\<forall>data t. axios_post env (endpoint_of p) (mcq_prompt topic n) = Inr data
          \<and> response_text data = JStr t \<and> t \<noteq> [] \<and> JSON_parse env (cleanText t) = Some (JArr []) \<longrightarrow>
        fst (generateMCQInitial env topic n) = JArr [])"
  using assms
  apply (intro conjI allI impI)
         apply (auto simp: fetchAIStructure_def fetchAIStructure_try_def generateMCQInitial_def
           generateMCQInitial_try_def parse_mcqs_def mcqs_of_def slice0_def Let_def
           split: jsval.splits sum.splits)
  done

theorem client_failures_witness:
  "fst (fetchAIStructure unreachable ''boards'' ''ctx'') = fallbackMockStructure ''boards'' ''ctx''
   \<and> fst (fetchAIStructure no_text ''boards'' ''ctx'') = fallbackMockStructure ''boards'' ''ctx''
   \<and> fst (fetchAIStructure garbled ''boards'' ''ctx'') = fallbackMockStructure ''boards'' ''ctx''
   \<and> fst (fetchAIStructure empty_reply ''boards'' ''ctx'') = JArr []
   \<and> fst (generateMCQInitial unreachable ''Algebra'' 5) = fallbackMock ''Algebra'' 5
   \<and> fst (generateMCQInitial empty_reply ''Algebra'' 5) = JArr []"
proof -
  have key: "truthy_str (api_key gemini)"
    by (simp add: truthy_str_def gemini_def)
  have rows: "provider_rows unreachable = Inr (gemini # [])" "provider_rows no_text = Inr (gemini # [])"
    "provider_rows garbled = Inr (gemini # [])" "provider_rows empty_reply = Inr (gemini # [])"
    by (simp_all add: unreachable_def no_text_def garbled_def empty_reply_def)
  have nt: "\<not> truthy (response_text (JObj [(''candidates'', JArr [])]))"
    by (simp add: response_text_def opt_prop_def)
  have cl: "cleanText ''Sorry, I cannot'' = ''Sorry, I cannot''"
    by (simp add: cleanText_def trim_def is_space_def)
  show ?thesis
    using client_failures [OF rows(1) key, of "''boards''" "''ctx''" "''Algebra''" 5]
      client_failures [OF rows(2) key, of "''boards''" "''ctx''" "''Algebra''" 5]
      client_failures [OF rows(3) key, of "''boards''" "''ctx''" "''Algebra''" 5]
      client_failures [OF rows(4) key, of "''boards''" "''ctx''" "''Algebra''" 5]
      nt cl
    by (simp add: unreachable_def no_text_def garbled_def empty_reply_def response_text_envelope
          cleanText_brackets)
qed

text \<open>
  With the text \<^verbatim>\<open>[]\<close> from the provider the structure fetch returns the empty list,
  which is not the output of the fallback mock generator.
\<close>

theorem empty_parse_result_is_not_mocked:
  "fst (fetchAIStructure empty_reply ''boards'' ''ctx'') = JArr []
   \<and> fallbackMockStructure ''boards'' ''ctx'' \<noteq> JArr []"
  by (simp add: fetchAIStructure_def fetchAIStructure_try_def empty_reply_def truthy_str_def
        gemini_def response_text_envelope cleanText_brackets fallbackMockStructure_def Let_def)

section \<open>Ingesting a name twice\<close>

lemma query_no_faults_DML:
  "query no_faults (DML f) d = (res, d') \<Longrightarrow>
     res = Inr (fst (f (seq d) (current d))) \<and> current d' = snd (snd (f (seq d) (current d)))"
  by (auto simp: query_def Let_def no_faults_def split: prod.splits)

lemma node_conflict_iff:
  "node_conflict name (Some p) r \<longleftrightarrow> n_parent_id r = Some p \<and> n_name r = name"
  by (cases "n_parent_id r") (auto simp: node_conflict_def sql_holds_def sql_and_def sql_eq_def)

lemma rows_for_0_iff: "rows_for P rows = 0 \<longleftrightarrow> \<not> list_ex P rows"
  by (auto simp: rows_for_def list_ex_iff filter_empty_conv)

lemma rows_for_append: "rows_for P (xs @ ys) = rows_for P xs + rows_for P ys"
  by (simp add: rows_for_def)

lemma rows_for_map_same:
  "(\<And>r. P (f r) = P r) \<Longrightarrow> rows_for P (map f rows) = rows_for P rows"
  by (induction rows) (simp_all add: rows_for_def)

lemma rows_for_none: "\<not> list_ex P rows \<Longrightarrow> rows_for P rows = 0"
  by (simp add: rows_for_0_iff)

lemma rows_for_single: "rows_for P [r] = (if P r then 1 else 0)"
  by (simp add: rows_for_def)


lemma activate_same:
  "node_conflict name (Some p) (if node_conflict name (Some p) r then r\<lparr>n_is_active := True\<rparr> else r)
     = node_conflict name (Some p) r"
  by (simp add: node_conflict_iff)

lemma upd_True:
  "list_ex (node_conflict name (Some p)) rows \<Longrightarrow>
   insert_node_do_update name (Some p) sq rows =
     (map (\<lambda>r. (n_id r, n_name r))
        (filter (node_conflict name (Some p))
           (map (\<lambda>r. if node_conflict name (Some p) r then r\<lparr>n_is_active := True\<rparr> else r) rows)),
      Suc sq,
      map (\<lambda>r. if node_conflict name (Some p) r then r\<lparr>n_is_active := True\<rparr> else r) rows)"
  by (simp add: insert_node_do_update_def Let_def)

lemma upd_False:
  "\<not> list_ex (node_conflict name (Some p)) rows \<Longrightarrow>
   insert_node_do_update name (Some p) sq rows =
     ([(sq, name)], Suc sq,
      rows @ [\<lparr>n_id = sq, n_name = name, n_parent_id = Some p, n_is_active = True\<rparr>])"
  by (simp add: insert_node_do_update_def Let_def)


lemma nothing_True:
  "list_ex (node_conflict name (Some p)) rows \<Longrightarrow>
   insert_node_do_nothing name (Some p) act sq rows = ([], Suc sq, rows)"
  by (simp add: insert_node_do_nothing_def)

lemma nothing_False:
  "\<not> list_ex (node_conflict name (Some p)) rows \<Longrightarrow>
   insert_node_do_nothing name (Some p) act sq rows =
     ([\<lparr>n_id = sq, n_name = name, n_parent_id = Some p, n_is_active = act\<rparr>], Suc sq,
      rows @ [\<lparr>n_id = sq, n_name = name, n_parent_id = Some p, n_is_active = act\<rparr>])"
  by (simp add: insert_node_do_nothing_def Let_def)

lemma conflict_new:
  "node_conflict name (Some p) \<lparr>n_id = sq, n_name = name, n_parent_id = Some p, n_is_active = act\<rparr>"
  by (simp add: node_conflict_iff)

lemma rows_for_activate:
  "rows_for (node_conflict name (Some p))
     (map (\<lambda>r. if node_conflict name (Some p) r then r\<lparr>n_is_active := True\<rparr> else r) rows)
   = rows_for (node_conflict name (Some p)) rows"
  by (induction rows) (simp_all add: rows_for_def node_conflict_iff)

lemma active_after_activate:
  "list_all n_is_active
     (filter (node_conflict name (Some p))
        (map (\<lambda>r. if node_conflict name (Some p) r then r\<lparr>n_is_active := True\<rparr> else r) rows))"
  by (induction rows) (auto simp: node_conflict_iff)

lemma insert_node_do_update_count:
  "rows_for (node_conflict name (Some p)) (snd (snd (insert_node_do_update name (Some p) sq rows)))
     = (if rows_for (node_conflict name (Some p)) rows = 0 then 1
        else rows_for (node_conflict name (Some p)) rows)"
proof (cases "list_ex (node_conflict name (Some p)) rows")
  case True
  then show ?thesis
    by (simp add: upd_True rows_for_activate rows_for_0_iff)
next
  case False
  then show ?thesis
    by (simp add: upd_False rows_for_append rows_for_none rows_for_single conflict_new)
qed

lemma insert_node_do_update_active:
  "list_all n_is_active
     (filter (node_conflict name (Some p)) (snd (snd (insert_node_do_update name (Some p) sq rows))))"
proof (cases "list_ex (node_conflict name (Some p)) rows")
  case True
  then show ?thesis
    by (simp add: upd_True active_after_activate)
next
  case False
  then have "filter (node_conflict name (Some p)) rows = []"
    by (simp add: filter_empty_conv list_ex_iff)
  with False show ?thesis
    by (simp add: upd_False conflict_new)
qed

lemma insert_node_do_update_again:
  assumes "list_ex (node_conflict name (Some p)) rows"
  shows "length (snd (snd (insert_node_do_update name (Some p) sq rows))) = length rows"
    and "\<exists>i rest. fst (insert_node_do_update name (Some p) sq rows) = (i, name) # rest"
proof -
  let ?C = "node_conflict name (Some p)"
  let ?f = "\<lambda>r. if ?C r then r\<lparr>n_is_active := True\<rparr> else r"
  from assms show "length (snd (snd (insert_node_do_update name (Some p) sq rows))) = length rows"
    by (simp add: upd_True)
  from assms have "rows_for ?C (map ?f rows) \<noteq> 0"
    by (simp add: rows_for_activate rows_for_0_iff)
  then obtain r rest where fr: "filter ?C (map ?f rows) = r # rest"
    by (cases "filter ?C (map ?f rows)") (auto simp: rows_for_def)
  then have "r \<in> set (filter ?C (map ?f rows))" by simp
  then have "?C r" by (simp only: set_filter mem_Collect_eq)
  then have "n_name r = name" by (simp add: node_conflict_iff)
  with assms fr show "\<exists>i rest. fst (insert_node_do_update name (Some p) sq rows) = (i, name) # rest"
    by (simp add: upd_True)
qed

lemma insert_node_do_nothing_count:
  "rows_for (node_conflict name (Some p)) (snd (snd (insert_node_do_nothing name (Some p) act sq rows)))
     = (if rows_for (node_conflict name (Some p)) rows = 0 then 1
        else rows_for (node_conflict name (Some p)) rows)"
proof (cases "list_ex (node_conflict name (Some p)) rows")
  case True
  then show ?thesis by (simp add: nothing_True rows_for_0_iff)
next
  case False
  then show ?thesis
    by (simp add: nothing_False rows_for_append rows_for_none rows_for_single conflict_new)
qed

lemma list_ex_rows_for: "list_ex P rows \<longleftrightarrow> rows_for P rows \<noteq> 0"
  by (simp add: rows_for_0_iff)

lemma list_ex_after_insert:
  "list_ex (node_conflict name (Some p)) (snd (snd (insert_node_do_update name (Some p) sq rows)))"
  "list_ex (node_conflict name (Some p)) (snd (snd (insert_node_do_nothing name (Some p) act sq rows)))"
  by (simp_all add: list_ex_rows_for insert_node_do_update_count insert_node_do_nothing_count)


lemma query_no_faults:
  "query no_faults (DML f) d =
     (Inr (fst (f (seq d) (current d))),
      set_current (snd (snd (f (seq d) (current d))))
        (d\<lparr>calls := calls d + 1, seq := fst (snd (f (seq d) (current d)))\<rparr>))"
  by (simp add: query_def Let_def no_faults_def split: prod.splits)

lemma fetch_out_boards_step_no_faults:
  assumes "item_name item = Inr name" "name \<noteq> []" "\<not> isNonSchoolBoard name"
    and "fetch_out_boards_step no_faults sid item (saved, d) = (e, (saved', d'))"
  shows "e = None"
    and "saved' = push_first (fst (insert_node_do_update name sid (seq d) (boards (current d)))) saved"
    and "boards (current d') = snd (snd (insert_node_do_update name sid (seq d) (boards (current d))))"
  using assms
  by (auto simp: fetch_out_boards_step_def query_no_faults sql_insert_boards_do_update_def
        split: prod.splits)

lemma fetch_out_boards_twice:
  assumes ok: "item_name item = Inr name" "name \<noteq> []" "\<not> isNonSchoolBoard name"
    and s1: "fetch_out_boards_step no_faults (Some p) item (saved, d) = (e1, (saved1, d1))"
    and s2: "fetch_out_boards_step no_faults (Some p) item (saved1, d1) = (e2, (saved2, d2))"
  shows "e1 = None \<and> e2 = None
     \<and> length (boards (current d2)) = length (boards (current d1))
     \<and> rows_for (node_conflict name (Some p)) (boards (current d2))
         = (if rows_for (node_conflict name (Some p)) (boards (current d)) = 0 then 1
            else rows_for (node_conflict name (Some p)) (boards (current d)))
     \<and> list_all n_is_active (filter (node_conflict name (Some p)) (boards (current d2)))
     \<and> (\<exists>i. saved2 = saved1 @ [(i, name)])"
proof -
  let ?C = "node_conflict name (Some p)"
  note f1 = fetch_out_boards_step_no_faults [OF ok s1]
  note f2 = fetch_out_boards_step_no_faults [OF ok s2]
  have ex1: "list_ex ?C (boards (current d1))"
    by (simp add: f1(3) list_ex_after_insert)
  have c1: "rows_for ?C (boards (current d1))
              = (if rows_for ?C (boards (current d)) = 0 then 1 else rows_for ?C (boards (current d)))"
    by (simp only: f1(3) insert_node_do_update_count)
  have c2: "rows_for ?C (boards (current d2)) = rows_for ?C (boards (current d1))"
    using ex1 by (simp add: f2(3) insert_node_do_update_count list_ex_rows_for)
  have len: "length (boards (current d2)) = length (boards (current d1))"
    by (simp only: f2(3) insert_node_do_update_again(1) [OF ex1])
  have act: "list_all n_is_active (filter ?C (boards (current d2)))"
    by (simp only: f2(3) insert_node_do_update_active)
  from insert_node_do_update_again(2) [OF ex1, of "seq d1"]
  have "\<exists>i. saved2 = saved1 @ [(i, name)]"
    by (auto simp: f2(2) push_first_def)
  with f1(1) f2(1) len c1 c2 act show ?thesis by simp
qed

lemma seq_set_current [simp]: "seq (set_current st d) = seq d"
  by (simp add: set_current_def split: option.split)

lemma fetch_out_subject_where_iff:
  "fetch_out_subject_where (Some b) (Some c) s nm r \<longleftrightarrow>
      s_board_id r = Some b \<and> s_class_id r = Some c \<and> s_stream_id r = s
      \<and> toLowerCase (s_name r) = toLowerCase nm"
  by (cases "s_board_id r"; cases "s_class_id r"; cases "s_stream_id r"; cases s)
     (auto simp: fetch_out_subject_where_def sql_holds_def sql_and_def sql_or_def sql_eq_def
        sql_is_null_def)

lemma chapter_where_iff:
  "chapter_where (Some p) nm r \<longleftrightarrow>
      n_parent_id r = Some p \<and> toLowerCase (n_name r) = toLowerCase nm"
  by (cases "n_parent_id r") (auto simp: chapter_where_def sql_holds_def sql_and_def sql_eq_def)

lemma rows_for_subject_update:
  "rows_for (fetch_out_subject_where (Some b) (Some c) s nm)
     (map (\<lambda>r. if s_id r = k then r\<lparr>s_is_active := True\<rparr> else r) rows)
   = rows_for (fetch_out_subject_where (Some b) (Some c) s nm) rows"
  by (induction rows) (simp_all add: rows_for_def fetch_out_subject_where_iff)

lemma first_subject_activated:
  assumes "filter (fetch_out_subject_where (Some b) (Some c) s nm) rows = r0 # rest"
  shows "list_ex (\<lambda>r. fetch_out_subject_where (Some b) (Some c) s nm r \<and> s_is_active r
                     \<and> s_id r = s_id r0)
           (map (\<lambda>r. if s_id r = s_id r0 then r\<lparr>s_is_active := True\<rparr> else r) rows)"
proof -
  from assms have "r0 \<in> set (filter (fetch_out_subject_where (Some b) (Some c) s nm) rows)"
    by simp
  then have r0: "r0 \<in> set rows" "fetch_out_subject_where (Some b) (Some c) s nm r0"
    by simp_all
  let ?f = "\<lambda>r. if s_id r = s_id r0 then r\<lparr>s_is_active := True\<rparr> else r"
  from r0(1) have "?f r0 \<in> set (map ?f rows)"
    by (simp only: set_map) (rule imageI)
  moreover from r0(2) have "fetch_out_subject_where (Some b) (Some c) s nm (?f r0)
      \<and> s_is_active (?f r0) \<and> s_id (?f r0) = s_id r0"
    by (simp add: fetch_out_subject_where_iff)
  ultimately show ?thesis
    unfolding list_ex_iff by (rule bexI [rotated])
qed

lemma fetch_out_subjects_step_no_faults:
  assumes "item_name item = Inr name" "name \<noteq> []"
    and "fetch_out_subjects_step no_faults bid cid strm item (saved, d) = (e, (saved', d'))"
  shows "e = None"
    and "filter (fetch_out_subject_where bid cid (if truthy_id strm then strm else None) name)
           (subjects (current d)) = [] \<Longrightarrow>
         saved' = saved @ [(seq d, name)]
         \<and> subjects (current d') = subjects (current d) @
             [\<lparr>s_id = seq d, s_name = name, s_category_id = Some 1, s_board_id = bid,
               s_university_id = None, s_class_id = cid,
               s_stream_id = (if truthy_id strm then strm else None), s_semester_id = None,
               s_degree_type_id = None, s_paper_stage_id = None, s_is_active = True,
               s_is_approved = Some True\<rparr>]"
    and "filter (fetch_out_subject_where bid cid (if truthy_id strm then strm else None) name)
           (subjects (current d)) = r0 # rest \<Longrightarrow>
         saved' = saved @ [(s_id r0, name)]
         \<and> subjects (current d') =
             map (\<lambda>r. if s_id r = s_id r0 then r\<lparr>s_is_active := True\<rparr> else r) (subjects (current d))"
  using assms
  by (auto simp: fetch_out_subjects_step_def query_no_faults sql_select_subjects_def
        sql_insert_subjects_fetch_out_def sql_update_subjects_active_def push_first_def Let_def
        split: prod.splits list.splits if_splits)


lemma subject_new_matches:
  "fetch_out_subject_where (Some b) (Some c) s name
     \<lparr>s_id = k, s_name = name, s_category_id = Some 1, s_board_id = Some b,
      s_university_id = None, s_class_id = Some c, s_stream_id = s, s_semester_id = None,
      s_degree_type_id = None, s_paper_stage_id = None, s_is_active = True,
      s_is_approved = Some True\<rparr>"
  by (simp add: fetch_out_subject_where_iff)

lemma filter_Nil_rows_for: "filter P rows = [] \<longleftrightarrow> rows_for P rows = 0"
  by (simp add: rows_for_def)

lemma fetch_out_subjects_twice:
  assumes ok: "item_name item = Inr name" "name \<noteq> []"
    and s1: "fetch_out_subjects_step no_faults (Some b) (Some c) strm item (saved, d)
               = (e1, (saved1, d1))"
    and s2: "fetch_out_subjects_step no_faults (Some b) (Some c) strm item (saved1, d1)
               = (e2, (saved2, d2))"
  shows "e1 = None \<and> e2 = None
     \<and> length (subjects (current d2)) = length (subjects (current d1))
     \<and> rows_for (fetch_out_subject_where (Some b) (Some c) (if truthy_id strm then strm else None) name)
           (subjects (current d2))
         = (if rows_for (fetch_out_subject_where (Some b) (Some c)
                           (if truthy_id strm then strm else None) name) (subjects (current d)) = 0
            then 1
            else rows_for (fetch_out_subject_where (Some b) (Some c)
                             (if truthy_id strm then strm else None) name) (subjects (current d)))
     \<and> (\<exists>i. saved2 = saved1 @ [(i, name)]
            \<and> list_ex (\<lambda>r. fetch_out_subject_where (Some b) (Some c)
                                (if truthy_id strm then strm else None) name r
                            \<and> s_is_active r \<and> s_id r = i) (subjects (current d2)))"
proof -
  let ?s = "if truthy_id strm then strm else None"
  let ?M = "fetch_out_subject_where (Some b) (Some c) ?s name"
  note f1 = fetch_out_subjects_step_no_faults [OF ok s1]
  note f2 = fetch_out_subjects_step_no_faults [OF ok s2]
  have c1: "rows_for ?M (subjects (current d1))
              = (if rows_for ?M (subjects (current d)) = 0 then 1
                 else rows_for ?M (subjects (current d)))"
  proof (cases "filter ?M (subjects (current d))")
    case Nil
    with f1(2) [OF Nil] show ?thesis
      by (simp add: rows_for_append rows_for_single subject_new_matches filter_Nil_rows_for)
  next
    case (Cons r0 rest)
    then have "rows_for ?M (subjects (current d)) \<noteq> 0" by (simp add: rows_for_def)
    with f1(3) [OF Cons] show ?thesis
      by (simp add: rows_for_subject_update)
  qed
  then have "rows_for ?M (subjects (current d1)) \<noteq> 0" by (simp split: if_splits)
  then obtain r1 rest1 where fr: "filter ?M (subjects (current d1)) = r1 # rest1"
    by (cases "filter ?M (subjects (current d1))") (simp_all add: rows_for_def)
  note u = f2(3) [OF fr]
  from u have len: "length (subjects (current d2)) = length (subjects (current d1))"
    by simp
  from u have c2: "rows_for ?M (subjects (current d2)) = rows_for ?M (subjects (current d1))"
    by (simp add: rows_for_subject_update)
  from u first_subject_activated [OF fr]
  have act: "\<exists>i. saved2 = saved1 @ [(i, name)]
            \<and> list_ex (\<lambda>r. ?M r \<and> s_is_active r \<and> s_id r = i) (subjects (current d2))"
    by auto
  from f1(1) f2(1) len c1 c2 act show ?thesis by simp
qed


lemma rows_for_chapter_update:
  "rows_for (chapter_where (Some p) nm)
     (map (\<lambda>r. if n_id r = k then r\<lparr>n_is_active := True\<rparr> else r) rows)
   = rows_for (chapter_where (Some p) nm) rows"
  by (induction rows) (simp_all add: rows_for_def chapter_where_iff)

lemma first_chapter_activated:
  assumes "filter (chapter_where (Some p) nm) rows = r0 # rest"
  shows "list_ex (\<lambda>r. chapter_where (Some p) nm r \<and> n_is_active r \<and> n_id r = n_id r0)
           (map (\<lambda>r. if n_id r = n_id r0 then r\<lparr>n_is_active := True\<rparr> else r) rows)"
proof -
  from assms have "r0 \<in> set (filter (chapter_where (Some p) nm) rows)"
    by simp
  then have r0: "r0 \<in> set rows" "chapter_where (Some p) nm r0"
    by simp_all
  let ?f = "\<lambda>r. if n_id r = n_id r0 then r\<lparr>n_is_active := True\<rparr> else r"
  from r0(1) have "?f r0 \<in> set (map ?f rows)"
    by (simp only: set_map) (rule imageI)
  moreover from r0(2) have "chapter_where (Some p) nm (?f r0)
      \<and> n_is_active (?f r0) \<and> n_id (?f r0) = n_id r0"
    by (simp add: chapter_where_iff)
  ultimately show ?thesis
    unfolding list_ex_iff by (rule bexI [rotated])
qed

lemma no_chapter_no_conflict:
  assumes "filter (chapter_where (Some p) nm) rows = []"
  shows "\<not> list_ex (node_conflict nm (Some p)) rows"
  using assms by (auto simp: filter_empty_conv list_ex_iff node_conflict_iff chapter_where_iff)

lemma fetch_out_chapters_step_no_faults:
  assumes "item_name item = Inr name" "name \<noteq> []"
    and "fetch_out_chapters_step no_faults (Some p) item (saved, d) = (e, (saved', d'))"
  shows "e = None"
    and "filter (chapter_where (Some p) name) (chapters (current d)) = [] \<Longrightarrow>
         saved' = saved @ [(seq d, name)]
         \<and> chapters (current d') = chapters (current d) @
             [\<lparr>n_id = seq d, n_name = name, n_parent_id = Some p, n_is_active = True\<rparr>]"
    and "filter (chapter_where (Some p) name) (chapters (current d)) = r0 # rest \<Longrightarrow>
         saved' = saved @ [(n_id r0, name)]
         \<and> chapters (current d') =
             map (\<lambda>r. if n_id r = n_id r0 then r\<lparr>n_is_active := True\<rparr> else r) (chapters (current d))"
proof -
  show "e = None"
    using assms
    by (auto simp: fetch_out_chapters_step_def query_no_faults split: prod.splits list.splits)
  show "saved' = saved @ [(seq d, name)]
         \<and> chapters (current d') = chapters (current d) @
             [\<lparr>n_id = seq d, n_name = name, n_parent_id = Some p, n_is_active = True\<rparr>]"
    if "filter (chapter_where (Some p) name) (chapters (current d)) = []"
    using assms that no_chapter_no_conflict [OF that]
    by (auto simp: fetch_out_chapters_step_def query_no_faults sql_select_chapters_def
          sql_insert_chapters_do_update_def upd_False push_first_def split: prod.splits)
  show "saved' = saved @ [(n_id r0, name)]
         \<and> chapters (current d') =
             map (\<lambda>r. if n_id r = n_id r0 then r\<lparr>n_is_active := True\<rparr> else r) (chapters (current d))"
    if "filter (chapter_where (Some p) name) (chapters (current d)) = r0 # rest"
    using assms that
    by (auto simp: fetch_out_chapters_step_def query_no_faults sql_select_chapters_def
          sql_update_chapters_active_def split: prod.splits)
qed

lemma chapter_new_matches:
  "chapter_where (Some p) name \<lparr>n_id = k, n_name = name, n_parent_id = Some p, n_is_active = a\<rparr>"
  by (simp add: chapter_where_iff)

lemma fetch_out_chapters_twice:
  assumes ok: "item_name item = Inr name" "name \<noteq> []"
    and s1: "fetch_out_chapters_step no_faults (Some p) item (saved, d) = (e1, (saved1, d1))"
    and s2: "fetch_out_chapters_step no_faults (Some p) item (saved1, d1) = (e2, (saved2, d2))"
  shows "e1 = None \<and> e2 = None
     \<and> length (chapters (current d2)) = length (chapters (current d1))
     \<and> rows_for (chapter_where (Some p) name) (chapters (current d2))
         = (if rows_for (chapter_where (Some p) name) (chapters (current d)) = 0 then 1
            else rows_for (chapter_where (Some p) name) (chapters (current d)))
     \<and> (\<exists>i. saved2 = saved1 @ [(i, name)]
            \<and> list_ex (\<lambda>r. chapter_where (Some p) name r \<and> n_is_active r \<and> n_id r = i)
                 (chapters (current d2)))"
proof -
  let ?M = "chapter_where (Some p) name"
  note f1 = fetch_out_chapters_step_no_faults [OF ok s1]
  note f2 = fetch_out_chapters_step_no_faults [OF ok s2]
  have c1: "rows_for ?M (chapters (current d1))
              = (if rows_for ?M (chapters (current d)) = 0 then 1
                 else rows_for ?M (chapters (current d)))"
  proof (cases "filter ?M (chapters (current d))")
    case Nil
    with f1(2) [OF Nil] show ?thesis
      by (simp add: rows_for_append rows_for_single chapter_new_matches filter_Nil_rows_for)
  next
    case (Cons r0 rest)
    then have "rows_for ?M (chapters (current d)) \<noteq> 0" by (simp add: rows_for_def)
    with f1(3) [OF Cons] show ?thesis
      by (simp add: rows_for_chapter_update)
  qed
  then have "rows_for ?M (chapters (current d1)) \<noteq> 0" by (simp split: if_splits)
  then obtain r1 rest1 where fr: "filter ?M (chapters (current d1)) = r1 # rest1"
    by (cases "filter ?M (chapters (current d1))") (simp_all add: rows_for_def)
  note u = f2(3) [OF fr]
  from u have len: "length (chapters (current d2)) = length (chapters (current d1))"
    by simp
  from u have c2: "rows_for ?M (chapters (current d2)) = rows_for ?M (chapters (current d1))"
    by (simp add: rows_for_chapter_update)
  from u first_chapter_activated [OF fr]
  have act: "\<exists>i. saved2 = saved1 @ [(i, name)]
            \<and> list_ex (\<lambda>r. ?M r \<and> n_is_active r \<and> n_id r = i) (chapters (current d2))"
    by auto
  from f1(1) f2(1) len c1 c2 act show ?thesis by simp
qed

lemma ai_fetch_boards_step_no_faults:
  assumes "\<not> is_placeholder ''board '' name"
    and "ai_fetch_boards_step no_faults sid (JStr name) (saved, d) = (e, (saved', d'))"
  shows "e = None"
    and "saved' = push_first (fst (insert_node_do_nothing name sid True (seq d) (boards (current d)))) saved"
    and "boards (current d') = snd (snd (insert_node_do_nothing name sid True (seq d) (boards (current d))))"
  using assms
  by (auto simp: ai_fetch_boards_step_def query_no_faults sql_insert_boards_do_nothing_def
        split: prod.splits)

lemma ai_fetch_chapters_step_no_faults:
  assumes "\<not> is_placeholder ''chapter '' name"
    and "ai_fetch_chapters_step no_faults sid (JStr name) (saved, d) = (e, (saved', d'))"
  shows "e = None"
    and "saved' = push_first (fst (insert_node_do_nothing name sid True (seq d) (chapters (current d)))) saved"
    and "chapters (current d') = snd (snd (insert_node_do_nothing name sid True (seq d) (chapters (current d))))"
  using assms
  by (auto simp: ai_fetch_chapters_step_def query_no_faults sql_insert_chapters_do_nothing_def
        split: prod.splits)

lemma ai_fetch_boards_twice:
  assumes ok: "\<not> is_placeholder ''board '' name"
    and s1: "ai_fetch_boards_step no_faults (Some p) (JStr name) (saved, d) = (e1, (saved1, d1))"
    and s2: "ai_fetch_boards_step no_faults (Some p) (JStr name) (saved1, d1) = (e2, (saved2, d2))"
  shows "e1 = None \<and> e2 = None
     \<and> boards (current d2) = boards (current d1) \<and> saved2 = saved1
     \<and> rows_for (node_conflict name (Some p)) (boards (current d2))
         = (if rows_for (node_conflict name (Some p)) (boards (current d)) = 0 then 1
            else rows_for (node_conflict name (Some p)) (boards (current d)))"
proof -
  note f1 = ai_fetch_boards_step_no_faults [OF ok s1]
  note f2 = ai_fetch_boards_step_no_faults [OF ok s2]
  have ex1: "list_ex (node_conflict name (Some p)) (boards (current d1))"
    by (simp add: f1(3) list_ex_after_insert)
  have c1: "rows_for (node_conflict name (Some p)) (boards (current d1))
         = (if rows_for (node_conflict name (Some p)) (boards (current d)) = 0 then 1
            else rows_for (node_conflict name (Some p)) (boards (current d)))"
    by (simp only: f1(3) insert_node_do_nothing_count)
  from ex1 have "boards (current d2) = boards (current d1)" "saved2 = saved1"
    by (simp_all add: f2(2,3) nothing_True push_first_def)
  with f1(1) f2(1) c1 show ?thesis by simp
qed

lemma ai_fetch_chapters_twice:
  assumes ok: "\<not> is_placeholder ''chapter '' name"
    and s1: "ai_fetch_chapters_step no_faults (Some p) (JStr name) (saved, d) = (e1, (saved1, d1))"
    and s2: "ai_fetch_chapters_step no_faults (Some p) (JStr name) (saved1, d1) = (e2, (saved2, d2))"
  shows "e1 = None \<and> e2 = None
     \<and> chapters (current d2) = chapters (current d1) \<and> saved2 = saved1
     \<and> rows_for (node_conflict name (Some p)) (chapters (current d2))
         = (if rows_for (node_conflict name (Some p)) (chapters (current d)) = 0 then 1
            else rows_for (node_conflict name (Some p)) (chapters (current d)))"
proof -
  note f1 = ai_fetch_chapters_step_no_faults [OF ok s1]
  note f2 = ai_fetch_chapters_step_no_faults [OF ok s2]
  have ex1: "list_ex (node_conflict name (Some p)) (chapters (current d1))"
    by (simp add: f1(3) list_ex_after_insert)
  have c1: "rows_for (node_conflict name (Some p)) (chapters (current d1))
         = (if rows_for (node_conflict name (Some p)) (chapters (current d)) = 0 then 1
            else rows_for (node_conflict name (Some p)) (chapters (current d)))"
    by (simp only: f1(3) insert_node_do_nothing_count)
  from ex1 have "chapters (current d2) = chapters (current d1)" "saved2 = saved1"
    by (simp_all add: f2(2,3) nothing_True push_first_def)
  with f1(1) f2(1) c1 show ?thesis by simp
qed


subsection \<open>Universities and papers\<close>

lemma pending_conflict_iff:
  "pending_conflict \<lparr>p_id = sq, p_name = Some name, p_parent_id = Some p, p_is_approved = a\<rparr>
     = pending_for name p"
proof
  fix r
  show "pending_conflict \<lparr>p_id = sq, p_name = Some name, p_parent_id = Some p, p_is_approved = a\<rparr> r
     = pending_for name p r"
    by (cases "p_parent_id r"; cases "p_name r")
       (auto simp: pending_conflict_def pending_for_def sql_holds_def sql_and_def sql_eq_def)
qed

lemma insert_pending_count:
  "rows_for (pending_for name p)
     (snd (snd (insert_pending_do_nothing pending_conflict (Some name) (Some p) a sq rows)))
     = (if rows_for (pending_for name p) rows = 0 then 1 else rows_for (pending_for name p) rows)"
  by (simp add: insert_pending_do_nothing_def Let_def pending_conflict_iff rows_for_0_iff
        rows_for_append rows_for_single pending_for_def)

lemma insert_pending_again:
  "rows_for (pending_for name p) rows \<noteq> 0 \<Longrightarrow>
   insert_pending_do_nothing pending_conflict (Some name) (Some p) a sq rows = ([], Suc sq, rows)"
  by (simp add: insert_pending_do_nothing_def Let_def pending_conflict_iff rows_for_0_iff)

lemma ai_fetch_universities_step_no_faults:
  assumes "\<not> is_placeholder ''university '' name"
    and "ai_fetch_universities_step conflict no_faults sid (JStr name) (saved, d) = (e, (saved', d'))"
  shows "e = None"
    and "saved' = push_first (fst (insert_pending_do_nothing conflict (Some name) sid False (seq d)
                                      (universities (current d)))) saved"
    and "universities (current d') = snd (snd (insert_pending_do_nothing conflict (Some name) sid False
                                      (seq d) (universities (current d))))"
  using assms
  by (auto simp: ai_fetch_universities_step_def query_no_faults sql_insert_universities_def
        split: prod.splits)

lemma ai_fetch_papers_step_no_faults:
  assumes "ai_fetch_papers_step render conflict no_faults cid it (saved, d) = (e, (saved', d'))"
  shows "e = None"
    and "saved' = push_first (fst (insert_pending_do_nothing conflict (render it) cid False (seq d)
                                      (papers_stages (current d)))) saved"
    and "papers_stages (current d') = snd (snd (insert_pending_do_nothing conflict (render it) cid False
                                      (seq d) (papers_stages (current d))))"
  using assms
  by (auto simp: ai_fetch_papers_step_def query_no_faults sql_insert_papers_stages_def
        split: prod.splits)

lemma ai_fetch_universities_twice:
  assumes ok: "\<not> is_placeholder ''university '' name"
    and s1: "ai_fetch_universities_step pending_conflict no_faults (Some p) (JStr name) (saved, d)
               = (e1, (saved1, d1))"
    and s2: "ai_fetch_universities_step pending_conflict no_faults (Some p) (JStr name) (saved1, d1)
               = (e2, (saved2, d2))"
  shows "e1 = None \<and> e2 = None
     \<and> universities (current d2) = universities (current d1) \<and> saved2 = saved1
     \<and> rows_for (pending_for name p) (universities (current d2))
         = (if rows_for (pending_for name p) (universities (current d)) = 0 then 1
            else rows_for (pending_for name p) (universities (current d)))"
proof -
  note f1 = ai_fetch_universities_step_no_faults [OF ok s1]
  note f2 = ai_fetch_universities_step_no_faults [OF ok s2]
  have c1: "rows_for (pending_for name p) (universities (current d1))
         = (if rows_for (pending_for name p) (universities (current d)) = 0 then 1
            else rows_for (pending_for name p) (universities (current d)))"
    by (simp only: f1(3) insert_pending_count)
  then have "rows_for (pending_for name p) (universities (current d1)) \<noteq> 0"
    by (simp split: if_splits)
  then have "universities (current d2) = universities (current d1)" "saved2 = saved1"
    by (simp_all add: f2(2,3) insert_pending_again push_first_def)
  with f1(1) f2(1) c1 show ?thesis by simp
qed

lemma ai_fetch_papers_twice:
  assumes r: "render it = Some name"
    and s1: "ai_fetch_papers_step render pending_conflict no_faults (Some p) it (saved, d)
               = (e1, (saved1, d1))"
    and s2: "ai_fetch_papers_step render pending_conflict no_faults (Some p) it (saved1, d1)
               = (e2, (saved2, d2))"
  shows "e1 = None \<and> e2 = None
     \<and> papers_stages (current d2) = papers_stages (current d1) \<and> saved2 = saved1
     \<and> rows_for (pending_for name p) (papers_stages (current d2))
         = (if rows_for (pending_for name p) (papers_stages (current d)) = 0 then 1
            else rows_for (pending_for name p) (papers_stages (current d)))"
proof -
  note f1 = ai_fetch_papers_step_no_faults [OF s1]
  note f2 = ai_fetch_papers_step_no_faults [OF s2]
  have c1: "rows_for (pending_for name p) (papers_stages (current d1))
         = (if rows_for (pending_for name p) (papers_stages (current d)) = 0 then 1
            else rows_for (pending_for name p) (papers_stages (current d)))"
    by (simp only: f1(3) r insert_pending_count)
  then have "rows_for (pending_for name p) (papers_stages (current d1)) \<noteq> 0"
    by (simp split: if_splits)
  then have "papers_stages (current d2) = papers_stages (current d1)" "saved2 = saved1"
    by (simp_all add: f2(2,3) r insert_pending_again push_first_def)
  with f1(1) f2(1) c1 show ?thesis by simp
qed

subsection \<open>A public route without its parent key\<close>

lemma fetch_out_missing_key:
  assumes "rt = FetchOutBoards \<and> \<not> truthy_id (state_id b)
           \<or> rt = FetchOutSubjects \<and> (\<not> truthy_id (board_id b) \<or> \<not> truthy_id (class_id b))
           \<or> rt = FetchOutChapters \<and> \<not> truthy_id (subject_id b)"
  shows "database (snd (fetch_out env faults rt ip now b srv)) = database srv
     \<and> (fst (fetch_out env faults rt ip now b srv)
           = Status429 ''Too many fetch requests from this IP. Please wait 15 minutes.''
        \<or> (\<exists>msg. fst (fetch_out env faults rt ip now b srv) = Status400 msg))"
proof -
  from assms have "missing_info rt b \<noteq> None" by auto
  then show ?thesis
    by (auto simp: fetch_out_def enter_def split: prod.splits verdict.splits option.splits)
qed

subsection \<open>The seven routes\<close>

text \<open>
  Claim C1, as the routes are written. A name that reaches the ingestion of a route (it
  passed the route's filter) is ingested twice in a row, for a parent scope given by a
  concrete key (not NULL), with no statement failing. On the public routes (boards,
  subjects, chapters) the second ingestion inserts nothing (the table keeps its length),
  reports the existing row, and that row is active. On the admin on-conflict routes the
  second ingestion is skipped: the table and the list of saved rows stay as they are;
  for boards and chapters through the constraint that their \<^verbatim>\<open>ON CONFLICT\<close> names, for
  universities and papers, whose \<^verbatim>\<open>ON CONFLICT DO NOTHING\<close> names none, in a schema
  with the uniqueness constraint on (scope key, name). On all seven, the number of rows
  for the (scope, name), counted as the route's own existence check counts them, is
  afterwards what it was before, or 1 when there was none: exactly one row when there was
  at most one before. A request to a public route without its parent key ingests
  nothing: it is answered with 400 (or 429 by the rate limiter) and the database stays as
  it is.
\<close>

theorem ingest_twice:
  "(item_name it = Inr name \<and> name \<noteq> [] \<and> \<not> isNonSchoolBoard name
      \<and> fetch_out_boards_step no_faults (Some p) it (saved, d) = (e1, (saved1, d1))
      \<and> fetch_out_boards_step no_faults (Some p) it (saved1, d1) = (e2, (saved2, d2)) \<longrightarrow>
    e1 = None \<and> e2 = None
    \<and> length (boards (current d2)) = length (boards (current d1))
    \<and> rows_for (node_conflict name (Some p)) (boards (current d2))
        = (if rows_for (node_conflict name (Some p)) (boards (current d)) = 0 then 1
           else rows_for (node_conflict name (Some p)) (boards (current d)))
    \<and> list_all n_is_active (filter (node_conflict name (Some p)) (boards (current d2)))
    \<and> (\<exists>i. saved2 = saved1 @ [(i, name)]))
   \<and> (item_name it = Inr name \<and> name \<noteq> []
      \<and> fetch_out_subjects_step no_faults (Some b) (Some c) strm it (saved, d) = (e1, (saved1, d1))
      \<and> fetch_out_subjects_step no_faults (Some b) (Some c) strm it (saved1, d1)
           = (e2, (saved2, d2)) \<longrightarrow>
    e1 = None \<and> e2 = None
    \<and> length (subjects (current d2)) = length (subjects (current d1))
    \<and> rows_for (fetch_out_subject_where (Some b) (Some c) (if truthy_id strm then strm else None) name)
          (subjects (current d2))
        = (if rows_for (fetch_out_subject_where (Some b) (Some c)
                          (if truthy_id strm then strm else None) name) (subjects (current d)) = 0
           then 1
           else rows_for (fetch_out_subject_where (Some b) (Some c)
                            (if truthy_id strm then strm else None) name) (subjects (current d)))
    \<and> (\<exists>i. saved2 = saved1 @ [(i, name)]
           \<and> list_ex (\<lambda>r. fetch_out_subject_where (Some b) (Some c)
                               (if truthy_id strm then strm else None) name r
                           \<and> s_is_active r \<and> s_id r = i) (subjects (current d2))))
   \<and> (item_name it = Inr name \<and> name \<noteq> []
      \<and> fetch_out_chapters_step no_faults (Some p) it (saved, d) = (e1, (saved1, d1))
      \<and> fetch_out_chapters_step no_faults (Some p) it (saved1, d1) = (e2, (saved2, d2)) \<longrightarrow>
    e1 = None \<and> e2 = None
    \<and> length (chapters (current d2)) = length (chapters (current d1))
    \<and> rows_for (chapter_where (Some p) name) (chapters (current d2))
        = (if rows_for (chapter_where (Some p) name) (chapters (current d)) = 0 then 1
           else rows_for (chapter_where (Some p) name) (chapters (current d)))
    \<and> (\<exists>i. saved2 = saved1 @ [(i, name)]
           \<and> list_ex (\<lambda>r. chapter_where (Some p) name r \<and> n_is_active r \<and> n_id r = i)
                (chapters (current d2))))
   \<and> (\<not> is_placeholder ''board '' name
      \<and> ai_fetch_boards_step no_faults (Some p) (JStr name) (kept, d) = (e1, (kept1, d1))
      \<and> ai_fetch_boards_step no_faults (Some p) (JStr name) (kept1, d1) = (e2, (kept2, d2)) \<longrightarrow>
    e1 = None \<and> e2 = None
    \<and> boards (current d2) = boards (current d1) \<and> kept2 = kept1
    \<and> rows_for (node_conflict name (Some p)) (boards (current d2))
        = (if rows_for (node_conflict name (Some p)) (boards (current d)) = 0 then 1
           else rows_for (node_conflict name (Some p)) (boards (current d))))
   \<and> (\<not> is_placeholder ''chapter '' name
      \<and> ai_fetch_chapters_step no_faults (Some p) (JStr name) (kept, d) = (e1, (kept1, d1))
      \<and> ai_fetch_chapters_step no_faults (Some p) (JStr name) (kept1, d1) = (e2, (kept2, d2)) \<longrightarrow>
    e1 = None \<and> e2 = None
    \<and> chapters (current d2) = chapters (current d1) \<and> kept2 = kept1
    \<and> rows_for (node_conflict name (Some p)) (chapters (current d2))
        = (if rows_for (node_conflict name (Some p)) (chapters (current d)) = 0 then 1
           else rows_for (node_conflict name (Some p)) (chapters (current d))))
   \<and> (\<not> is_placeholder ''university '' name
      \<and> ai_fetch_universities_step pending_conflict no_faults (Some p) (JStr name) (held, d)
           = (e1, (held1, d1))
      \<and> ai_fetch_universities_step pending_conflict no_faults (Some p) (JStr name) (held1, d1)
           = (e2, (held2, d2)) \<longrightarrow>
    e1 = None \<and> e2 = None
    \<and> universities (current d2) = universities (current d1) \<and> held2 = held1
    \<and> rows_for (pending_for name p) (universities (current d2))
        = (if rows_for (pending_for name p) (universities (current d)) = 0 then 1
           else rows_for (pending_for name p) (universities (current d))))
   \<and> (render it = Some name
      \<and> ai_fetch_papers_step render pending_conflict no_faults (Some p) it (held, d)
           = (e1, (held1, d1))
      \<and> ai_fetch_papers_step render pending_conflict no_faults (Some p) it (held1, d1)
           = (e2, (held2, d2)) \<longrightarrow>
    e1 = None \<and> e2 = None
    \<and> papers_stages (current d2) = papers_stages (current d1) \<and> held2 = held1
    \<and> rows_for (pending_for name p) (papers_stages (current d2))
        = (if rows_for (pending_for name p) (papers_stages (current d)) = 0 then 1
           else rows_for (pending_for name p) (papers_stages (current d))))
   \<and> (rt = FetchOutBoards \<and> \<not> truthy_id (state_id bd)
        \<or> rt = FetchOutSubjects \<and> (\<not> truthy_id (board_id bd) \<or> \<not> truthy_id (class_id bd))
        \<or> rt = FetchOutChapters \<and> \<not> truthy_id (subject_id bd) \<longrightarrow>
    database (snd (fetch_out env faults rt ip now bd srv)) = database srv
    \<and> (fst (fetch_out env faults rt ip now bd srv)
          = Status429 ''Too many fetch requests from this IP. Please wait 15 minutes.''
        \<or> (\<exists>msg. fst (fetch_out env faults rt ip now bd srv) = Status400 msg)))"
proof (intro conjI)
  show "rt = FetchOutBoards \<and> \<not> truthy_id (state_id bd)
        \<or> rt = FetchOutSubjects \<and> (\<not> truthy_id (board_id bd) \<or> \<not> truthy_id (class_id bd))
        \<or> rt = FetchOutChapters \<and> \<not> truthy_id (subject_id bd) \<longrightarrow>
    database (snd (fetch_out env faults rt ip now bd srv)) = database srv
    \<and> (fst (fetch_out env faults rt ip now bd srv)
          = Status429 ''Too many fetch requests from this IP. Please wait 15 minutes.''
        \<or> (\<exists>msg. fst (fetch_out env faults rt ip now bd srv) = Status400 msg))"
    by (intro impI) (rule fetch_out_missing_key)
qed ((intro impI, elim conjE,
       (rule fetch_out_boards_twice fetch_out_subjects_twice fetch_out_chapters_twice
          ai_fetch_boards_twice ai_fetch_chapters_twice ai_fetch_universities_twice
          ai_fetch_papers_twice; assumption))+)

lemma item_name_candidate:
  "item_name (candidate ''WBBSE'') = Inr ''WBBSE''"
  "item_name (candidate ''Physics'') = Inr ''Physics''"
  "item_name (candidate ''Optics'') = Inr ''Optics''"
  by (simp_all add: candidate_def item_name_def substring0_def trim_def is_space_def)

lemma db0_empty:
  "boards (current db0) = []" "subjects (current db0) = []" "chapters (current db0) = []"
  "universities (current db0) = []" "papers_stages (current db0) = []"
  by (simp_all add: db0_def current_def)

theorem ingest_twice_witness:
  "rows_for (node_conflict ''WBBSE'' (Some 7))
      (boards (current (snd (twice (fetch_out_boards_step no_faults (Some 7) (candidate ''WBBSE''))
                               ([], db0))))) = 1
   \<and> rows_for (fetch_out_subject_where (Some 3) (Some 9) None ''Physics'')
      (subjects (current (snd (twice (fetch_out_subjects_step no_faults (Some 3) (Some 9) None
                                        (candidate ''Physics'')) ([], db0))))) = 1
   \<and> rows_for (chapter_where (Some 4) ''Optics'')
      (chapters (current (snd (twice (fetch_out_chapters_step no_faults (Some 4) (candidate ''Optics''))
                                 ([], db0))))) = 1
   \<and> rows_for (node_conflict ''WBBSE'' (Some 7))
      (boards (current (snd (twice (ai_fetch_boards_step no_faults (Some 7) (JStr ''WBBSE''))
                               ([], db0))))) = 1
   \<and> rows_for (node_conflict ''Optics'' (Some 4))
      (chapters (current (snd (twice (ai_fetch_chapters_step no_faults (Some 4) (JStr ''Optics''))
                                 ([], db0))))) = 1
   \<and> rows_for (pending_for ''Presidency'' 7)
      (universities (current (snd (twice (ai_fetch_universities_step pending_conflict no_faults (Some 7)
                                            (JStr ''Presidency'')) ([], db0))))) = 1
   \<and> rows_for (pending_for ''Prelims'' 1)
      (papers_stages (current (snd (twice (ai_fetch_papers_step render_text pending_conflict no_faults
                                             (Some 1) (JStr ''Prelims'')) ([], db0))))) = 1
   \<and> database (snd (fetch_out offline no_faults FetchOutBoards ''10.0.0.1'' 0
                       (body7\<lparr>state_id := None\<rparr>) (proc w_start))) = db0"
proof -
  have school: "\<not> isNonSchoolBoard ''WBBSE''"
    by (simp add: isNonSchoolBoard_def nonSchoolKeywords_def js_includes_def toLowerCase_def
          toLowerCase_char_def sublist_Cons_right)
  have real: "\<not> is_placeholder ''board '' ''WBBSE''" "\<not> is_placeholder ''chapter '' ''Optics''"
    by (simp_all add: is_placeholder_def js_includes_def toLowerCase_def toLowerCase_char_def
          sublist_Cons_right)
  let ?b = "fetch_out_boards_step no_faults (Some 7) (candidate ''WBBSE'')"
  let ?s = "fetch_out_subjects_step no_faults (Some 3) (Some 9) None (candidate ''Physics'')"
  let ?c = "fetch_out_chapters_step no_faults (Some 4) (candidate ''Optics'')"
  let ?ab = "ai_fetch_boards_step no_faults (Some 7) (JStr ''WBBSE'')"
  let ?ac = "ai_fetch_chapters_step no_faults (Some 4) (JStr ''Optics'')"
  have 1: "rows_for (node_conflict ''WBBSE'' (Some 7)) (boards (current (snd (twice ?b ([], db0))))) = 1"
    using ingest_twice [where it = "candidate ''WBBSE''" and name = "''WBBSE''" and p = 7
        and saved = "[]" and d = db0
        and ?e1.0 = "fst (?b ([], db0))" and ?saved1.0 = "fst (snd (?b ([], db0)))"
        and ?d1.0 = "snd (snd (?b ([], db0)))"
        and ?e2.0 = "fst (?b (snd (?b ([], db0))))" and ?saved2.0 = "fst (snd (?b (snd (?b ([], db0)))))"
        and ?d2.0 = "snd (snd (?b (snd (?b ([], db0)))))",
        THEN conjunct1]
      school
    by (simp add: item_name_candidate db0_empty rows_for_def twice_def)
  have 2: "rows_for (fetch_out_subject_where (Some 3) (Some 9) None ''Physics'')
      (subjects (current (snd (twice ?s ([], db0))))) = 1"
    using ingest_twice [where it = "candidate ''Physics''" and name = "''Physics''" and b = 3 and c = 9
        and strm = None and saved = "[]" and d = db0
        and ?e1.0 = "fst (?s ([], db0))" and ?saved1.0 = "fst (snd (?s ([], db0)))"
        and ?d1.0 = "snd (snd (?s ([], db0)))"
        and ?e2.0 = "fst (?s (snd (?s ([], db0))))" and ?saved2.0 = "fst (snd (?s (snd (?s ([], db0)))))"
        and ?d2.0 = "snd (snd (?s (snd (?s ([], db0)))))",
        THEN conjunct2, THEN conjunct1]
    by (simp add: item_name_candidate db0_empty rows_for_def twice_def truthy_id_def)
  have 3: "rows_for (chapter_where (Some 4) ''Optics'') (chapters (current (snd (twice ?c ([], db0))))) = 1"
    using ingest_twice [where it = "candidate ''Optics''" and name = "''Optics''" and p = 4
        and saved = "[]" and d = db0
        and ?e1.0 = "fst (?c ([], db0))" and ?saved1.0 = "fst (snd (?c ([], db0)))"
        and ?d1.0 = "snd (snd (?c ([], db0)))"
        and ?e2.0 = "fst (?c (snd (?c ([], db0))))" and ?saved2.0 = "fst (snd (?c (snd (?c ([], db0)))))"
        and ?d2.0 = "snd (snd (?c (snd (?c ([], db0)))))",
        THEN conjunct2, THEN conjunct2, THEN conjunct1]
    by (simp add: item_name_candidate db0_empty rows_for_def twice_def)
  have 4: "rows_for (node_conflict ''WBBSE'' (Some 7)) (boards (current (snd (twice ?ab ([], db0))))) = 1"
    using ingest_twice [where name = "''WBBSE''" and p = 7 and kept = "[]" and d = db0
        and ?e1.0 = "fst (?ab ([], db0))" and ?kept1.0 = "fst (snd (?ab ([], db0)))"
        and ?d1.0 = "snd (snd (?ab ([], db0)))"
        and ?e2.0 = "fst (?ab (snd (?ab ([], db0))))" and ?kept2.0 = "fst (snd (?ab (snd (?ab ([], db0)))))"
        and ?d2.0 = "snd (snd (?ab (snd (?ab ([], db0)))))",
        THEN conjunct2, THEN conjunct2, THEN conjunct2, THEN conjunct1]
      real
    by (auto simp: db0_empty rows_for_def twice_def)
  have 5: "rows_for (node_conflict ''Optics'' (Some 4)) (chapters (current (snd (twice ?ac ([], db0))))) = 1"
    using ingest_twice [where name = "''Optics''" and p = 4 and kept = "[]" and d = db0
        and ?e1.0 = "fst (?ac ([], db0))" and ?kept1.0 = "fst (snd (?ac ([], db0)))"
        and ?d1.0 = "snd (snd (?ac ([], db0)))"
        and ?e2.0 = "fst (?ac (snd (?ac ([], db0))))" and ?kept2.0 = "fst (snd (?ac (snd (?ac ([], db0)))))"
        and ?d2.0 = "snd (snd (?ac (snd (?ac ([], db0)))))",
        THEN conjunct2, THEN conjunct2, THEN conjunct2, THEN conjunct2, THEN conjunct1]
      real
    by (auto simp: db0_empty rows_for_def twice_def)
  let ?au = "ai_fetch_universities_step pending_conflict no_faults (Some 7) (JStr ''Presidency'')"
  let ?ap = "ai_fetch_papers_step render_text pending_conflict no_faults (Some 1) (JStr ''Prelims'')"
  have real': "\<not> is_placeholder ''university '' ''Presidency''"
    by (simp add: is_placeholder_def js_includes_def toLowerCase_def toLowerCase_char_def
          sublist_Cons_right)
  have 6: "rows_for (pending_for ''Presidency'' 7)
      (universities (current (snd (twice ?au ([], db0))))) = 1"
    using ingest_twice [where name = "''Presidency''" and p = 7 and held = "[]" and d = db0
        and ?e1.0 = "fst (?au ([], db0))" and ?held1.0 = "fst (snd (?au ([], db0)))"
        and ?d1.0 = "snd (snd (?au ([], db0)))"
        and ?e2.0 = "fst (?au (snd (?au ([], db0))))" and ?held2.0 = "fst (snd (?au (snd (?au ([], db0)))))"
        and ?d2.0 = "snd (snd (?au (snd (?au ([], db0)))))",
        THEN conjunct2, THEN conjunct2, THEN conjunct2, THEN conjunct2, THEN conjunct2,
        THEN conjunct1]
      real'
    by (auto simp: db0_empty rows_for_def twice_def)
  have 7: "rows_for (pending_for ''Prelims'' 1)
      (papers_stages (current (snd (twice ?ap ([], db0))))) = 1"
    using ingest_twice [where render = render_text and it = "JStr ''Prelims''"
        and name = "''Prelims''" and p = 1 and held = "[]" and d = db0
        and ?e1.0 = "fst (?ap ([], db0))" and ?held1.0 = "fst (snd (?ap ([], db0)))"
        and ?d1.0 = "snd (snd (?ap ([], db0)))"
        and ?e2.0 = "fst (?ap (snd (?ap ([], db0))))" and ?held2.0 = "fst (snd (?ap (snd (?ap ([], db0)))))"
        and ?d2.0 = "snd (snd (?ap (snd (?ap ([], db0)))))",
        THEN conjunct2, THEN conjunct2, THEN conjunct2, THEN conjunct2, THEN conjunct2,
        THEN conjunct2, THEN conjunct1]
    by (auto simp: db0_empty rows_for_def twice_def render_text_def)
  have 8: "database (snd (fetch_out offline no_faults FetchOutBoards ''10.0.0.1'' 0
                       (body7\<lparr>state_id := None\<rparr>) (proc w_start))) = db0"
    using ingest_twice [where rt = FetchOutBoards and bd = "body7\<lparr>state_id := None\<rparr>"
        and env = offline and faults = no_faults and ip = "''10.0.0.1''" and now = 0
        and srv = "proc w_start",
        THEN conjunct2, THEN conjunct2, THEN conjunct2, THEN conjunct2, THEN conjunct2,
        THEN conjunct2, THEN conjunct2]
    by (simp add: truthy_id_def w_start_def del: fetch_key.simps missing_info.simps)
  from 1 2 3 4 5 6 7 8 show ?thesis by simp
qed

text \<open>
  The admin routes hand \<^verbatim>\<open>state_id\<close> and \<^verbatim>\<open>subject_id\<close> of the body to the statement
  unchecked. For a request without the key the parameter is NULL, the constraint of
  \<^verbatim>\<open>ON CONFLICT\<close> never fires, and the same name ingested twice leaves two rows.
\<close>

theorem admin_null_key_twice:
  "boards (current (snd (twice (ai_fetch_boards_step no_faults None (JStr ''WBBSE'')) ([], db0))))
     = [\<lparr>n_id = 1, n_name = ''WBBSE'', n_parent_id = None, n_is_active = True\<rparr>,
        \<lparr>n_id = 2, n_name = ''WBBSE'', n_parent_id = None, n_is_active = True\<rparr>]
   \<and> chapters (current (snd (twice (ai_fetch_chapters_step no_faults None (JStr ''Optics'')) ([], db0))))
     = [\<lparr>n_id = 1, n_name = ''Optics'', n_parent_id = None, n_is_active = True\<rparr>,
        \<lparr>n_id = 2, n_name = ''Optics'', n_parent_id = None, n_is_active = True\<rparr>]"
  by (simp add: twice_def ai_fetch_boards_step_def ai_fetch_chapters_step_def is_placeholder_def
        js_includes_def toLowerCase_def toLowerCase_char_def sublist_Cons_right query_def Let_def
        db0_def current_def set_current_def no_faults_def sql_insert_boards_do_nothing_def
        sql_insert_chapters_do_nothing_def insert_node_do_nothing_def push_first_def
        node_conflict_def sql_holds_def sql_and_def sql_eq_def)

section \<open>Letter case in the existence checks\<close>



subsection \<open>The admin subject route\<close>

text \<open>
  The condition of the admin subject route has the scope keys of the public one and
  \<^verbatim>\<open>name = $1\<close> in the place of \<^verbatim>\<open>LOWER(name) = LOWER($4)\<close>. With Physics stored, the
  public route takes the candidate "physics" for the stored row; the admin route inserts
  it as a second row.
\<close>

lemma admin_subject_where_iff:
  "admin_subject_where nm (Some b) (Some c) s r \<longleftrightarrow>
      s_board_id r = Some b \<and> s_class_id r = Some c \<and> s_stream_id r = s \<and> s_name r = nm"
  by (cases "s_board_id r"; cases "s_class_id r"; cases "s_stream_id r"; cases s)
     (auto simp: admin_subject_where_def sql_holds_def sql_and_def sql_or_def sql_eq_def
        sql_is_null_def)

lemma subject_routes_on_physics:
  "subjects (committed (snd (snd
      (fetch_out_subjects_step no_faults (Some 3) (Some 9) None (candidate ''physics'')
         ([], db_physics))))) = [physics]"
  "subjects (committed (snd (snd
      (ai_fetch_subjects_step no_faults body7 (JStr ''physics'') ([], db_physics)))))
     = [physics,
        \<lparr>s_id = 2, s_name = ''physics'', s_category_id = Some 1, s_board_id = Some 3,
         s_university_id = None, s_class_id = Some 9, s_stream_id = None,
         s_semester_id = None, s_degree_type_id = None, s_paper_stage_id = None,
         s_is_active = True, s_is_approved = None\<rparr>]"
   apply (simp add: fetch_out_subjects_step_def candidate_def item_name_def substring0_def
      trim_def is_space_def query_def Let_def db0_def db_physics_def physics_def current_def
      set_current_def no_faults_def sql_select_subjects_def sql_update_subjects_active_def
      fetch_out_subject_where_def sql_holds_def sql_and_def sql_or_def sql_eq_def sql_is_null_def
      toLowerCase_def toLowerCase_char_def truthy_id_def split_beta)
  apply (simp add: ai_fetch_subjects_step_def is_placeholder_def js_includes_def
      toLowerCase_def toLowerCase_char_def sublist_Cons_right query_def Let_def db0_def
      db_physics_def physics_def current_def set_current_def no_faults_def body7_def
      sql_insert_subjects_admin_def admin_subject_where_def sql_holds_def sql_and_def
      sql_or_def sql_eq_def sql_is_null_def push_first_def)
  done

section \<open>The transaction of the admin routes\<close>

lemma for_of_None_invariant:
  assumes "\<And>x s s'. P s \<Longrightarrow> step x s = (None, s') \<Longrightarrow> P s'"
  shows "P s \<Longrightarrow> for_of step xs s = (None, s') \<Longrightarrow> P s'"
proof (induction xs arbitrary: s)
  case Nil
  then show ?case by simp
next
  case (Cons x xs)
  obtain e1 s1 where st: "step x s = (e1, s1)" by (cases "step x s")
  with Cons.prems(2) have e1: "e1 = None" and rest: "for_of step xs s1 = (None, s')"
    by (auto split: option.splits)
  from assms Cons.prems(1) st e1 have "P s1" by blast
  with Cons.IH rest show ?case by blast
qed





























section \<open>The concurrency guard\<close>

lemma enter_Inl:
  assumes "enter rt ip now b srv = (Inl resp, srv')"
  shows "activeFetches srv' = activeFetches srv" and "database srv' = database srv"
  using assms
  by (auto simp: enter_def Let_def split: prod.splits verdict.splits option.splits if_splits)

lemma enter_Inr:
  assumes "enter rt ip now b srv = (Inr key, srv')"
  shows "key \<notin> activeFetches srv" and "activeFetches srv' = insert key (activeFetches srv)"
    and "database srv' = database srv" and "key = fetch_key rt b" and "missing_info rt b = None"
  using assms
  by (auto simp: enter_def Let_def split: prod.splits verdict.splits option.splits if_splits)

lemma enter_held:
  assumes "missing_info rt b = None" and "fetch_key rt b \<in> activeFetches srv"
  shows "\<exists>msg srv'. enter rt ip now b srv = (Inl (Status429 msg), srv')"
  using assms
  by (auto simp: enter_def Let_def split: prod.splits verdict.splits option.splits if_splits)

lemma enter_free:
  assumes "missing_info rt b = None" and "fetch_key rt b \<notin> activeFetches srv"
    and "fst (rateLimitMiddleware ip now (rateLimitMap srv)) = Next"
  shows "\<exists>srv'. enter rt ip now b srv = (Inr (fetch_key rt b), srv')"
  using assms
  by (auto simp: enter_def Let_def split: prod.splits verdict.splits option.splits if_splits)

lemma initial_guard_inv: "initial w \<Longrightarrow> guard_inv w"
  by (simp add: initial_def guard_inv_def)

lemma fire_guard_inv:
  assumes inv: "guard_inv w"
  shows "guard_inv (fire reqs ev w)"
proof (cases ev)
  case (Arrive i now)
  show ?thesis
  proof (cases "tasks w i")
    case Waiting
    obtain r srv' where e: "enter (route_of (reqs i)) (ip_of (reqs i)) now (body_of (reqs i)) (proc w) = (r, srv')"
      by (metis prod.exhaust)
    show ?thesis
    proof (cases r)
      case (Inl resp)
      with e have af: "activeFetches srv' = activeFetches (proc w)" by (simp add: enter_Inl)
      from Arrive Waiting e Inl have w': "fire reqs ev w = w\<lparr>proc := srv', tasks := (tasks w)(i := Finished (Some resp))\<rparr>"
        by simp
      from inv Waiting af show ?thesis
        unfolding w' guard_inv_def
        by (auto split: if_splits) (metis task.distinct(1))
    next
      case (Inr key)
      with e have k: "key \<notin> activeFetches (proc w)"
          "activeFetches srv' = insert key (activeFetches (proc w))"
        by (simp_all add: enter_Inr)
      from Arrive Waiting e Inr have w': "fire reqs ev w = w\<lparr>proc := srv', tasks := (tasks w)(i := Running key)\<rparr>"
        by simp
      from inv k(1) have nobody: "\<And>j. tasks w j \<noteq> Running key"
        unfolding guard_inv_def by blast
      from inv Waiting k nobody show ?thesis
        unfolding w' guard_inv_def
        by (auto split: if_splits) (metis task.distinct(1))
    qed
  next
    case (Running k)
    with Arrive inv show ?thesis by simp
  next
    case (Finished r)
    with Arrive inv show ?thesis by simp
  qed
next
  case (Work i d')
  with inv show ?thesis
    by (cases "tasks w i") (auto simp: guard_inv_def)
next
  case (Finish i outcome)
  show ?thesis
  proof (cases "tasks w i")
    case (Running k)
    with Finish have w': "fire reqs ev w = w\<lparr>proc := release k (proc w), tasks := (tasks w)(i := Finished outcome)\<rparr>"
      by simp
    from inv Running have only: "\<And>j. tasks w j = Running k \<Longrightarrow> j = i"
      unfolding guard_inv_def by blast
    from inv Running only show ?thesis
      unfolding w' guard_inv_def release_def
      by (auto split: if_splits) (metis task.inject(1))
  next
    case Waiting
    with Finish inv show ?thesis by simp
  next
    case (Finished r)
    with Finish inv show ?thesis by simp
  qed
qed

lemma run_guard_inv: "guard_inv w \<Longrightarrow> guard_inv (run reqs evs w)"
  unfolding run_def
  by (induction evs arbitrary: w) (simp_all add: fire_guard_inv)


lemma fire_Arrive_held:
  assumes inv: "guard_inv w"
    and holder: "tasks w i = Running (fetch_key (route_of (reqs j)) (body_of (reqs j)))"
    and waiting: "tasks w j = Waiting"
    and valid: "missing_info (route_of (reqs j)) (body_of (reqs j)) = None"
  shows "(\<exists>msg. tasks (fire reqs (Arrive j now) w) j = Finished (Some (Status429 msg)))
     \<and> database (proc (fire reqs (Arrive j now) w)) = database (proc w)
     \<and> activeFetches (proc (fire reqs (Arrive j now) w)) = activeFetches (proc w)
     \<and> tasks (fire reqs (Arrive j now) w) i = tasks w i"
proof -
  let ?key = "fetch_key (route_of (reqs j)) (body_of (reqs j))"
  from inv holder have "?key \<in> activeFetches (proc w)"
    unfolding guard_inv_def by blast
  from enter_held [OF valid this] obtain msg srv' where
    e: "enter (route_of (reqs j)) (ip_of (reqs j)) now (body_of (reqs j)) (proc w)
          = (Inl (Status429 msg), srv')"
    by blast
  from holder waiting have "i \<noteq> j" by auto
  with e waiting enter_Inl [OF e] show ?thesis by simp
qed

lemma fire_Arrive_free:
  assumes waiting: "tasks w j = Waiting"
    and valid: "missing_info (route_of (reqs j)) (body_of (reqs j)) = None"
    and free: "fetch_key (route_of (reqs j)) (body_of (reqs j)) \<notin> activeFetches (proc w)"
    and allowed: "fst (rateLimitMiddleware (ip_of (reqs j)) now (rateLimitMap (proc w))) = Next"
  shows "tasks (fire reqs (Arrive j now) w) j
           = Running (fetch_key (route_of (reqs j)) (body_of (reqs j)))"
proof -
  from enter_free [OF valid free allowed] obtain srv' where
    "enter (route_of (reqs j)) (ip_of (reqs j)) now (body_of (reqs j)) (proc w)
          = (Inr (fetch_key (route_of (reqs j)) (body_of (reqs j))), srv')"
    by blast
  with waiting show ?thesis by simp
qed

lemma fire_Finish_released:
  assumes "tasks w i = Running k"
  shows "k \<notin> activeFetches (proc (fire reqs (Finish i outcome) w))
     \<and> tasks (fire reqs (Finish i outcome) w) i = Finished outcome"
  using assms by (simp add: release_def)

lemma fire_Finished: "tasks w (actor ev) = Finished r \<Longrightarrow> fire reqs ev w = w"
  by (cases ev) simp_all

text \<open>
  Claim C9. The process starts with no key held and serves the requests in any
  interleaving (any list of events). In every state it reaches: no two running requests
  hold the same key, and \<^verbatim>\<open>activeFetches\<close> holds exactly the keys of the running
  requests, so no key of a finished request. A well-formed request that arrives while
  another one runs with the same key is answered with a 429 response, and neither the
  database nor \<^verbatim>\<open>activeFetches\<close> changes; one that arrives while its key is free,
  and that the rate limiter lets through, proceeds with the key. When a running request
  leaves its \<^verbatim>\<open>try\<close> statement, with a success response, with the 500 response of
  the \<^verbatim>\<open>catch\<close> block or with an uncaught error, its key is no longer in
  \<^verbatim>\<open>activeFetches\<close>. A finished request does nothing more.
\<close>

theorem guard_mutual_exclusion:
  assumes "initial w0" and "w = run reqs evs w0"
  shows
   "(\<forall>i j k. tasks w i = Running k \<and> tasks w j = Running k \<longrightarrow> i = j)
    \<and> (\<forall>k. k \<in> activeFetches (proc w) \<longleftrightarrow> (\<exists>i. tasks w i = Running k))
    \<and> (\<forall>i j now.
          tasks w i = Running (fetch_key (route_of (reqs j)) (body_of (reqs j)))
          \<and> tasks w j = Waiting
          \<and> missing_info (route_of (reqs j)) (body_of (reqs j)) = None \<longrightarrow>
            (\<exists>msg. tasks (fire reqs (Arrive j now) w) j = Finished (Some (Status429 msg)))
            \<and> database (proc (fire reqs (Arrive j now) w)) = database (proc w)
            \<and> activeFetches (proc (fire reqs (Arrive j now) w)) = activeFetches (proc w)
            \<and> tasks (fire reqs (Arrive j now) w) i = tasks w i)
    \<and> (\<forall>j now.
          tasks w j = Waiting
          \<and> missing_info (route_of (reqs j)) (body_of (reqs j)) = None
          \<and> fetch_key (route_of (reqs j)) (body_of (reqs j)) \<notin> activeFetches (proc w)
          \<and> fst (rateLimitMiddleware (ip_of (reqs j)) now (rateLimitMap (proc w))) = Next \<longrightarrow>
            tasks (fire reqs (Arrive j now) w) j
              = Running (fetch_key (route_of (reqs j)) (body_of (reqs j))))
    \<and> (\<forall>i k outcome.
          tasks w i = Running k \<longrightarrow>
            k \<notin> activeFetches (proc (fire reqs (Finish i outcome) w))
            \<and> tasks (fire reqs (Finish i outcome) w) i = Finished outcome)
    \<and> (\<forall>ev r. tasks w (actor ev) = Finished r \<longrightarrow> fire reqs ev w = w)"
proof -
  from assms have inv: "guard_inv w"
    by (simp add: initial_guard_inv run_guard_inv)
  then have a: "\<forall>i j k. tasks w i = Running k \<and> tasks w j = Running k \<longrightarrow> i = j"
    and b: "\<forall>k. k \<in> activeFetches (proc w) \<longleftrightarrow> (\<exists>i. tasks w i = Running k)"
    unfolding guard_inv_def by blast+
  have c: "\<forall>i j now.
          tasks w i = Running (fetch_key (route_of (reqs j)) (body_of (reqs j)))
          \<and> tasks w j = Waiting
          \<and> missing_info (route_of (reqs j)) (body_of (reqs j)) = None \<longrightarrow>
            (\<exists>msg. tasks (fire reqs (Arrive j now) w) j = Finished (Some (Status429 msg)))
            \<and> database (proc (fire reqs (Arrive j now) w)) = database (proc w)
            \<and> activeFetches (proc (fire reqs (Arrive j now) w)) = activeFetches (proc w)
            \<and> tasks (fire reqs (Arrive j now) w) i = tasks w i"
    by (intro allI impI, elim conjE, rule fire_Arrive_held [OF inv])
  have d: "\<forall>j now.
          tasks w j = Waiting
          \<and> missing_info (route_of (reqs j)) (body_of (reqs j)) = None
          \<and> fetch_key (route_of (reqs j)) (body_of (reqs j)) \<notin> activeFetches (proc w)
          \<and> fst (rateLimitMiddleware (ip_of (reqs j)) now (rateLimitMap (proc w))) = Next \<longrightarrow>
            tasks (fire reqs (Arrive j now) w) j
              = Running (fetch_key (route_of (reqs j)) (body_of (reqs j)))"
    by (intro allI impI, elim conjE, rule fire_Arrive_free)
  have e: "\<forall>i k outcome.
          tasks w i = Running k \<longrightarrow>
            k \<notin> activeFetches (proc (fire reqs (Finish i outcome) w))
            \<and> tasks (fire reqs (Finish i outcome) w) i = Finished outcome"
    by (intro allI impI, rule fire_Finish_released)
  have f: "\<forall>ev r. tasks w (actor ev) = Finished r \<longrightarrow> fire reqs ev w = w"
    by (intro allI impI, rule fire_Finished)
  from a b c d e f show ?thesis by (intro conjI)
qed


lemma key_body7: "fetch_key FetchOutBoards body7 = ''boards_7''"
  by (simp add: body7_def id_text_def number_text_def digit_char_def)

lemma valid_body7: "missing_info FetchOutBoards body7 = None"
  by (simp add: body7_def truthy_id_def truthy_str_def)

lemma first_arrival:
  "run same_request [Arrive 0 100] w_start
     = \<lparr>proc = \<lparr>rateLimitMap = [''10.0.0.1'' \<mapsto> \<lparr>count = 1, resetTime = 900100\<rparr>],
                 activeFetches = {''boards_7''}, database = db0\<rparr>,
        tasks = (\<lambda>i. Waiting)(0 := Running ''boards_7'')\<rparr>"
  by (simp add: run_def w_start_def same_request_def enter_def rateLimitMiddleware_def windowMs_def
        body7_def truthy_id_def truthy_str_def id_text_def number_text_def digit_char_def Let_def)

theorem guard_mutual_exclusion_witness:
  "initial w_start
   \<and> tasks (run same_request [Arrive 0 100] w_start) 0 = Running ''boards_7''
   \<and> tasks (run same_request [Arrive 0 100] w_start) 1 = Waiting
   \<and> (\<exists>msg. tasks (fire same_request (Arrive 1 200) (run same_request [Arrive 0 100] w_start)) 1
               = Finished (Some (Status429 msg)))
   \<and> database (proc (fire same_request (Arrive 1 200) (run same_request [Arrive 0 100] w_start)))
       = db0
   \<and> ''boards_7'' \<notin> activeFetches
         (proc (fire same_request (Finish 0 None) (run same_request [Arrive 0 100] w_start)))"
proof -
  have init: "initial w_start" by (simp add: initial_def w_start_def)
  let ?w = "run same_request [Arrive 0 100] w_start"
  have holder: "tasks ?w 0 = Running ''boards_7''" and waiting: "tasks ?w 1 = Waiting"
    and db: "database (proc ?w) = db0"
    by (simp_all add: first_arrival)
  note g = guard_mutual_exclusion [OF init refl, of same_request "[Arrive 0 100]"]
  from g have "tasks ?w 0 = Running (fetch_key (route_of (same_request 1)) (body_of (same_request 1)))
          \<and> tasks ?w 1 = Waiting
          \<and> missing_info (route_of (same_request 1)) (body_of (same_request 1)) = None \<longrightarrow>
            (\<exists>msg. tasks (fire same_request (Arrive 1 200) ?w) 1 = Finished (Some (Status429 msg)))
            \<and> database (proc (fire same_request (Arrive 1 200) ?w)) = database (proc ?w)
            \<and> activeFetches (proc (fire same_request (Arrive 1 200) ?w)) = activeFetches (proc ?w)
            \<and> tasks (fire same_request (Arrive 1 200) ?w) 0 = tasks ?w 0"
    by blast
  with holder waiting db have second:
    "\<exists>msg. tasks (fire same_request (Arrive 1 200) ?w) 1 = Finished (Some (Status429 msg))"
    "database (proc (fire same_request (Arrive 1 200) ?w)) = db0"
    by (simp_all add: same_request_def key_body7 valid_body7
          del: fire.simps fetch_key.simps missing_info.simps)
  from g have "tasks ?w 0 = Running ''boards_7'' \<longrightarrow>
      ''boards_7'' \<notin> activeFetches (proc (fire same_request (Finish 0 None) ?w))
      \<and> tasks (fire same_request (Finish 0 None) ?w) 0 = Finished None"
    by blast
  with holder have released:
    "''boards_7'' \<notin> activeFetches (proc (fire same_request (Finish 0 None) ?w))"
    by (simp del: fire.simps)
  from init holder waiting second released show ?thesis by (simp del: fire.simps)
qed

end
